theory Spec2Isabelle
  imports Complex_Main "HOL-Library.AList"
begin

section \<open>JavaScript numbers and dates\<close>

text \<open>
  The engine of \<^verbatim>\<open>src/app.js\<close> computes with \<^verbatim>\<open>Date\<close> objects. A date holds a
  time value: an integral number of milliseconds since the epoch, or \<^verbatim>\<open>NaN\<close> for an
  invalid date. A time value is modelled as \<open>int option\<close>, \<open>None\<close> being \<^verbatim>\<open>NaN\<close>.
  Every number the modelled code handles is an integer or \<^verbatim>\<open>NaN\<close>; the model computes
  exactly, as IEEE doubles do on integers below \<open>2^53\<close>.
\<close>

type_synonym timeval = "int option"

definition msPerDay :: int where
  "msPerDay = 1000 * 60 * 60 * 24"

text \<open>What the program takes from its runtime: the time zone (\<^verbatim>\<open>LocalTZA(t, isUTC)\<close> of
  ECMAScript, in milliseconds), the time value of \<^verbatim>\<open>new Date(s)\<close> for a string,
  the integer that \<^verbatim>\<open>setHours\<close> makes of a string argument (\<^verbatim>\<open>ToNumber\<close>, truncated;
  \<open>None\<close> when it is not finite), and \<^verbatim>\<open>toISOString().slice(0, 10)\<close> of a valid date.\<close>

record runtime =
  LocalTZA :: "int \<Rightarrow> bool \<Rightarrow> int"
  dateParse :: "string \<Rightarrow> timeval"
  toInteger :: "string \<Rightarrow> int option"
  isoDate :: "int \<Rightarrow> string"

definition Day :: "int \<Rightarrow> int" where
  "Day t = t div msPerDay"

definition WeekDay :: "int \<Rightarrow> int" where
  "WeekDay t = (Day t + 4) mod 7"

definition LocalTime :: "runtime \<Rightarrow> int \<Rightarrow> int" where
  "LocalTime rt t = t + LocalTZA rt t True"

definition UTC :: "runtime \<Rightarrow> int \<Rightarrow> int" where
  "UTC rt t = t - LocalTZA rt t False"

definition TimeClip :: "int \<Rightarrow> timeval" where
  "TimeClip t = (if \<bar>t\<bar> > 8640000000000000 then None else Some t)"

text \<open>\<^verbatim>\<open>new Date(s)\<close> for a string, and \<^verbatim>\<open>new Date(n)\<close> for a number.\<close>

definition newDateOfString :: "runtime \<Rightarrow> string \<Rightarrow> timeval" where
  "newDateOfString rt s = dateParse rt s"

definition newDateOfNumber :: "int option \<Rightarrow> timeval" where
  "newDateOfNumber n = (case n of None \<Rightarrow> None | Some t \<Rightarrow> TimeClip t)"

text \<open>\<^verbatim>\<open>date.setHours(h, m, 0, 0)\<close>: the new time value of the date. An argument that is
  not a finite number makes the date invalid.\<close>

definition setHours :: "runtime \<Rightarrow> timeval \<Rightarrow> int option \<Rightarrow> int option \<Rightarrow> timeval" where
  "setHours rt tv h m =
     (case tv of None \<Rightarrow> None
      | Some t \<Rightarrow>
          (case (h, m) of
             (Some hh, Some mm) \<Rightarrow>
               TimeClip (UTC rt (Day (LocalTime rt t) * msPerDay + (hh * 3600000 + mm * 60000)))
           | _ \<Rightarrow> None))"

text \<open>\<^verbatim>\<open>date.setHours(0, 0, 0, 0)\<close>: the start of the date's local day.\<close>

definition startOfDay :: "runtime \<Rightarrow> timeval \<Rightarrow> timeval" where
  "startOfDay rt tv = setHours rt tv (Some 0) (Some 0)"

text \<open>\<^verbatim>\<open>date.getDay()\<close>: 0 is Sunday.\<close>

definition getDay :: "runtime \<Rightarrow> timeval \<Rightarrow> int option" where
  "getDay rt tv = (case tv of None \<Rightarrow> None | Some t \<Rightarrow> Some (WeekDay (LocalTime rt t)))"

text \<open>Arithmetic and comparison of numbers: \<^verbatim>\<open>NaN\<close> propagates through arithmetic and
  makes every comparison false, \<^verbatim>\<open>NaN === NaN\<close> included.\<close>

definition js_sub :: "int option \<Rightarrow> int option \<Rightarrow> int option" where
  "js_sub a b = (case (a, b) of (Some x, Some y) \<Rightarrow> Some (x - y) | _ \<Rightarrow> None)"

definition js_add :: "int option \<Rightarrow> int \<Rightarrow> int option" where
  "js_add a k = (case a of Some x \<Rightarrow> Some (x + k) | None \<Rightarrow> None)"

definition js_abs :: "int option \<Rightarrow> int option" where
  "js_abs a = (case a of Some x \<Rightarrow> Some \<bar>x\<bar> | None \<Rightarrow> None)"

definition js_gt :: "int option \<Rightarrow> int option \<Rightarrow> bool" where
  "js_gt a b = (case (a, b) of (Some x, Some y) \<Rightarrow> x > y | _ \<Rightarrow> False)"

definition js_lt :: "int option \<Rightarrow> int option \<Rightarrow> bool" where
  "js_lt a b = (case (a, b) of (Some x, Some y) \<Rightarrow> x < y | _ \<Rightarrow> False)"

definition js_le :: "int option \<Rightarrow> int option \<Rightarrow> bool" where
  "js_le a b = (case (a, b) of (Some x, Some y) \<Rightarrow> x \<le> y | _ \<Rightarrow> False)"

definition js_ge :: "int option \<Rightarrow> int option \<Rightarrow> bool" where
  "js_ge a b = (case (a, b) of (Some x, Some y) \<Rightarrow> x \<ge> y | _ \<Rightarrow> False)"

definition js_strict_eq :: "int option \<Rightarrow> int option \<Rightarrow> bool" where
  "js_strict_eq a b = (case (a, b) of (Some x, Some y) \<Rightarrow> x = y | _ \<Rightarrow> False)"

text \<open>\<^verbatim>\<open>Math.floor(a / k)\<close> and \<^verbatim>\<open>Math.ceil(a / k)\<close> for a positive constant \<open>k\<close>.\<close>

definition js_floor_div :: "int option \<Rightarrow> int \<Rightarrow> int option" where
  "js_floor_div a k = (case a of Some x \<Rightarrow> Some (x div k) | None \<Rightarrow> None)"

definition ceil_div :: "int \<Rightarrow> int \<Rightarrow> int" where
  "ceil_div x k = - ((- x) div k)"

definition js_ceil_div :: "int option \<Rightarrow> int \<Rightarrow> int option" where
  "js_ceil_div a k = (case a of Some x \<Rightarrow> Some (ceil_div x k) | None \<Rightarrow> None)"

text \<open>\<^verbatim>\<open>a % k\<close>: the remainder takes the sign of the dividend.\<close>

definition js_rem :: "int option \<Rightarrow> int \<Rightarrow> int option" where
  "js_rem a k = (case a of Some x \<Rightarrow> Some (sgn x * (\<bar>x\<bar> mod \<bar>k\<bar>)) | None \<Rightarrow> None)"

section \<open>Frequency calculus: \<^verbatim>\<open>isMedicationDueToday\<close>\<close>

text \<open>A medication record as the data store delivers it. A field that is absent
  (\<^verbatim>\<open>undefined\<close>, \<^verbatim>\<open>null\<close>) or the empty string is falsy in the code; both are the empty
  string, or the empty list, here.\<close>

record medication =
  med_id :: string
  med_name :: string
  frequency :: string
  medTimes :: "string list"
  startDate :: string

text \<open>What a call does: the value returned, the warnings written to the console, and
  the time value of the \<^verbatim>\<open>todayDate\<close> argument afterwards (the function normalises its
  argument in place).\<close>

record due_outcome =
  due :: bool
  warnings :: "string list"
  todayAfter :: timeval

definition requiresStartDate :: "string \<Rightarrow> bool" where
  "requiresStartDate f =
     (f \<in> set [''Every other day'', ''Weekly'', ''Bi-weekly'', ''Every three days'',
                ''Every four days''])"

definition noStartDateWarning :: "medication \<Rightarrow> string" where
  "noStartDateWarning med =
     ''Medication \"'' @ med_name med @
     ''\" has a recurring frequency but no start date. Cannot determine if due today.''"

text \<open>\<^verbatim>\<open>Math.floor((todayDate.getTime() - startDate.getTime()) / (1000 * 60 * 60 * 24))\<close>\<close>

definition diffDays :: "timeval \<Rightarrow> timeval \<Rightarrow> int option" where
  "diffDays today start = js_floor_div (js_sub today start) msPerDay"

text \<open>The \<^verbatim>\<open>switch\<close> on the frequency, on the normalised dates; \<open>sd = None\<close> is the
  \<^verbatim>\<open>null\<close> start date.\<close>

definition dueSwitch :: "runtime \<Rightarrow> string \<Rightarrow> timeval option \<Rightarrow> timeval \<Rightarrow> bool" where
  "dueSwitch rt f sd todayDate =
     (if f = ''Once daily'' \<or> f = ''Twice daily'' \<or> f = ''Three times daily'' then True
      else if f = ''Every other day'' then
        (case sd of None \<Rightarrow> False
         | Some s \<Rightarrow> let d = diffDays todayDate s
                     in js_ge d (Some 0) \<and> js_strict_eq (js_rem d 2) (Some 0))
      else if f = ''Every three days'' then
        (case sd of None \<Rightarrow> False
         | Some s \<Rightarrow> let d = diffDays todayDate s
                     in js_ge d (Some 0) \<and> js_strict_eq (js_rem d 3) (Some 0))
      else if f = ''Every four days'' then
        (case sd of None \<Rightarrow> False
         | Some s \<Rightarrow> let d = diffDays todayDate s
                     in js_ge d (Some 0) \<and> js_strict_eq (js_rem d 4) (Some 0))
      else if f = ''Weekly'' then
        (case sd of None \<Rightarrow> False
         | Some s \<Rightarrow> js_strict_eq (getDay rt todayDate) (getDay rt s))
      else if f = ''Bi-weekly'' then
        (case sd of None \<Rightarrow> False
         | Some s \<Rightarrow> let d = diffDays todayDate s
                     in js_strict_eq (getDay rt todayDate) (getDay rt s)
                        \<and> js_strict_eq (js_rem (js_floor_div d 7) 2) (Some 0))
      else False)"

definition isMedicationDueToday :: "runtime \<Rightarrow> medication option \<Rightarrow> timeval \<Rightarrow> due_outcome" where
  "isMedicationDueToday rt med todayDate =
     (case med of
        None \<Rightarrow> \<lparr>due = False, warnings = [], todayAfter = todayDate\<rparr>
      | Some m \<Rightarrow>
          if frequency m = [] then \<lparr>due = False, warnings = [], todayAfter = todayDate\<rparr>
          else if frequency m = ''As needed'' then
            \<lparr>due = False, warnings = [], todayAfter = todayDate\<rparr>
          else if requiresStartDate (frequency m) \<and> startDate m = [] then
            \<lparr>due = False, warnings = [noStartDateWarning m], todayAfter = todayDate\<rparr>
          else
            let sd = (if startDate m \<noteq> []
                      then Some (startOfDay rt (newDateOfString rt (startDate m)))
                      else None);
                today = startOfDay rt todayDate
            in \<lparr>due = dueSwitch rt (frequency m) sd today, warnings = [], todayAfter = today\<rparr>)"

section \<open>Dose requirement calculator: \<^verbatim>\<open>calculateDosesNeeded\<close> and the travel effect\<close>

text \<open>\<open>durationDays\<close> is a number: an integer or \<^verbatim>\<open>NaN\<close>; zero and \<^verbatim>\<open>NaN\<close> are falsy.\<close>

definition calculateDosesNeeded :: "string \<Rightarrow> int option \<Rightarrow> int" where
  "calculateDosesNeeded f durationDays =
     (case durationDays of
        None \<Rightarrow> 0
      | Some n \<Rightarrow>
          if f = [] \<or> n = 0 then 0
          else if f = ''Once daily'' then n
          else if f = ''Twice daily'' then n * 2
          else if f = ''Three times daily'' then n * 3
          else if f = ''Every other day'' then ceil_div n 2
          else if f = ''Every three days'' then ceil_div n 3
          else if f = ''Every four days'' then ceil_div n 4
          else if f = ''Weekly'' then ceil_div n 7
          else if f = ''Bi-weekly'' then ceil_div n 14
          else 0)"

text \<open>The effect of \<^verbatim>\<open>TravelModePage\<close> that recomputes the packing list: from the two
  date strings of the form, the primary medication (\<open>None\<close> when there is none) and the
  supplements, the values it stores with \<^verbatim>\<open>setPrimaryMedNeeded\<close> and
  \<^verbatim>\<open>setSupplementsNeeded\<close>.\<close>

definition tripDurationDays :: "runtime \<Rightarrow> string \<Rightarrow> string \<Rightarrow> int option" where
  "tripDurationDays rt departureDate returnDate =
     (let dep = newDateOfString rt departureDate;
          ret = newDateOfString rt returnDate;
          diffTime = js_abs (js_sub ret dep)
      in js_add (js_ceil_div diffTime msPerDay) 1)"

definition extraDoses :: "int option \<Rightarrow> int" where
  "extraDoses durationDays =
     (if js_lt durationDays (Some 14) then 2
      else if js_le durationDays (Some 30) then 3
      else 4)"

fun calculatedSupplements :: "int option \<Rightarrow> medication list \<Rightarrow> (string \<rightharpoonup> int) \<Rightarrow> (string \<rightharpoonup> int)" where
  "calculatedSupplements durationDays [] acc = acc"
| "calculatedSupplements durationDays (s # ss) acc =
     calculatedSupplements durationDays ss
       (acc(med_name s \<mapsto> calculateDosesNeeded (frequency s) durationDays))"

record packing =
  primaryMedNeeded :: int
  supplementsNeeded :: "string \<rightharpoonup> int"

definition travelEffect ::
  "runtime \<Rightarrow> string \<Rightarrow> string \<Rightarrow> medication option \<Rightarrow> medication list \<Rightarrow> packing" where
  "travelEffect rt departureDate returnDate mainIbdMed supplements =
     (if departureDate \<noteq> [] \<and> returnDate \<noteq> [] then
        let durationDays = tripDurationDays rt departureDate returnDate;
            calculatedPrimaryDoses =
              (case mainIbdMed of
                 None \<Rightarrow> 0
               | Some m \<Rightarrow> calculateDosesNeeded (frequency m) durationDays
                            + extraDoses durationDays)
        in \<lparr>primaryMedNeeded = calculatedPrimaryDoses,
            supplementsNeeded = calculatedSupplements durationDays supplements Map.empty\<rparr>
      else \<lparr>primaryMedNeeded = 0, supplementsNeeded = Map.empty\<rparr>)"

section \<open>Daily due-set builder: \<^verbatim>\<open>todaysMeds\<close>\<close>

text \<open>An entry of \<^verbatim>\<open>todaysMeds\<close>: the medication record with a \<^verbatim>\<open>times\<close> field, the list
  of its clock-times, or \<open>None\<close> for \<^verbatim>\<open>null\<close> when the record has none. The \<^verbatim>\<open>isPast\<close>
  flag of a clock-time and the \<^verbatim>\<open>isPrimary\<close> mark, which the scheduler never reads, are
  left out. The builder reads the clock once, at \<open>now\<close>.\<close>

record due_med = medication +
  times :: "string list option"

definition todaysMeds :: "runtime \<Rightarrow> int \<Rightarrow> medication option \<Rightarrow> medication list \<Rightarrow> due_med list" where
  "todaysMeds rt now mainIbdMed supplements =
     (let allMeds = (case mainIbdMed of None \<Rightarrow> [] | Some m \<Rightarrow> [m]) @ supplements;
          medsDueToday = filter (\<lambda>med. due (isMedicationDueToday rt (Some med) (Some now))) allMeds
      in map (\<lambda>med. medication.extend med
                      \<lparr>times = (if medTimes med \<noteq> [] then Some (medTimes med) else None)\<rparr>)
             medsDueToday)"

section \<open>Notification scheduler: \<^verbatim>\<open>MedicationReminders\<close>\<close>

text \<open>The callbacks handed to \<^verbatim>\<open>setTimeout\<close>, with what each closure captures: the key
  \<^verbatim>\<open>medIdentifier\<close>, the medication's name, the clock-time, the \<^verbatim>\<open>todayKey\<close> of the pass
  that armed it and, for the first reminder, the instant \<^verbatim>\<open>twoHoursAfter\<close>.\<close>

datatype callback =
    FirstReminder string string string string timeval
  | SecondReminder string string string

fun cb_key :: "callback \<Rightarrow> string" where
  "cb_key (FirstReminder medIdentifier name t todayKey after2) = medIdentifier"
| "cb_key (SecondReminder medIdentifier name todayKey) = medIdentifier"

fun cb_todayKey :: "callback \<Rightarrow> string" where
  "cb_todayKey (FirstReminder medIdentifier name t todayKey after2) = todayKey"
| "cb_todayKey (SecondReminder medIdentifier name todayKey) = todayKey"

text \<open>A pending timeout of the browser: the instant from which it may fire, and its
  callback.\<close>

record timer =
  fireAt :: int
  action :: callback

record notification =
  title :: string
  body :: string
  icon :: string

text \<open>The state the component works on.
  \<^item> \<open>localStorage\<close>: the durable store; an item holds the JSON text of an object, modelled
    as the object it parses to, a map from keys to booleans.
  \<^item> \<open>takenMedsState\<close>: the React state of the same name.
  \<^item> \<open>notificationTimers\<close>: \<^verbatim>\<open>notificationTimers.current\<close>, an object from keys to timer
    ids, kept in insertion order as \<^verbatim>\<open>for ... in\<close> enumerates it.
  \<^item> \<open>notifiedDate\<close>, \<open>notifiedGeneral\<close>: the \<^verbatim>\<open>date\<close> property and the other keys of
    \<^verbatim>\<open>notifiedGeneralMeds.current\<close>.
  \<^item> \<open>pending\<close>, \<open>nextTimerId\<close>: the browser's table of pending timeouts and the next id
    \<^verbatim>\<open>setTimeout\<close> returns.
  \<^item> \<open>permission\<close>: \<^verbatim>\<open>Notification.permission\<close>.
  \<^item> \<open>notifications\<close>: the notifications shown so far, oldest first.

  The store is taken to hold what this component wrote, so that \<^verbatim>\<open>JSON.parse\<close> succeeds;
  the request for permission at the head of the effect is the browser's affair and shows
  here only as the value of \<open>permission\<close>.\<close>

record engine =
  localStorage :: "string \<rightharpoonup> (string \<rightharpoonup> bool)"
  takenMedsState :: "string \<rightharpoonup> bool"
  notificationTimers :: "(string \<times> nat) list"
  notifiedDate :: "string option"
  notifiedGeneral :: "string set"
  pending :: "nat \<rightharpoonup> timer"
  nextTimerId :: nat
  permission :: string
  notifications :: "notification list"

text \<open>\<^verbatim>\<open>JSON.parse(localStorage.getItem(`takenMeds_${todayKey}`) || '{}')\<close>\<close>

definition takenMedsOf :: "(string \<rightharpoonup> (string \<rightharpoonup> bool)) \<Rightarrow> string \<Rightarrow> (string \<rightharpoonup> bool)" where
  "takenMedsOf ls todayKey =
     (case ls (''takenMeds_'' @ todayKey) of None \<Rightarrow> Map.empty | Some m \<Rightarrow> m)"

text \<open>\<^verbatim>\<open>setTimeout(cb, delay)\<close> called at \<open>now\<close>: the id returned and the new state. A
  delay that is \<^verbatim>\<open>NaN\<close> or negative counts as zero.\<close>

definition setTimeout :: "callback \<Rightarrow> int \<Rightarrow> int option \<Rightarrow> engine \<Rightarrow> nat \<times> engine" where
  "setTimeout cb now delay s =
     (nextTimerId s,
      s\<lparr>pending := (pending s)(nextTimerId s \<mapsto>
                   \<lparr>fireAt = now + (case delay of None \<Rightarrow> 0 | Some d \<Rightarrow> max 0 d), action = cb\<rparr>),
        nextTimerId := Suc (nextTimerId s)\<rparr>)"

definition clearTimeout :: "nat \<Rightarrow> engine \<Rightarrow> engine" where
  "clearTimeout i s = s\<lparr>pending := (pending s)(i := None)\<rparr>"

text \<open>\<^verbatim>\<open>for (const timerId in notificationTimers.current) clearTimeout(...)\<close>\<close>

definition clearAllTimers :: "engine \<Rightarrow> engine" where
  "clearAllTimers s = fold (\<lambda>(timerId, i). clearTimeout i) (notificationTimers s) s"

definition showNotification :: "notification \<Rightarrow> engine \<Rightarrow> engine" where
  "showNotification n s = s\<lparr>notifications := notifications s @ [n]\<rparr>"

text \<open>The three notifications. The icon addresses end in a pictograph in the source; the
  model keeps the part before it.\<close>

definition firstNotification :: "string \<Rightarrow> string \<Rightarrow> notification" where
  "firstNotification name t =
     \<lparr>title = ''Reminder: Take your '' @ name @ '' at '' @ t,
      body = ''It's been an hour since your scheduled dose for '' @ name @ ''!'',
      icon = ''https://placehold.co/64x64/000000/FFFFFF?text=''\<rparr>"

definition urgentNotification :: "string \<Rightarrow> notification" where
  "urgentNotification name =
     \<lparr>title = ''Urgent Reminder: Take your '' @ name @ ''!'',
      body = ''It's been two hours since your scheduled dose for '' @ name
             @ ''. Please take it now.'',
      icon = ''https://placehold.co/64x64/FF0000/FFFFFF?text=''\<rparr>"

definition generalNotification :: "string \<Rightarrow> string \<Rightarrow> notification" where
  "generalNotification name f =
     \<lparr>title = ''Reminder: Take your '' @ name @ '' today'',
      body = ''Your '' @ name @ '' is due today ('' @ f @ '').'',
      icon = ''https://placehold.co/64x64/000000/FFFFFF?text=''\<rparr>"

text \<open>\<^verbatim>\<open>t.split(':')\<close>\<close>

fun splitColon :: "string \<Rightarrow> string list" where
  "splitColon [] = [[]]"
| "splitColon (c # cs) =
     (if c = CHR '':'' then [] # splitColon cs
      else (case splitColon cs of [] \<Rightarrow> [[c]] | p # ps \<Rightarrow> (c # p) # ps))"

text \<open>\<^verbatim>\<open>const [hours, minutes] = t.time.split(':'); medDateTime = new Date();
  medDateTime.setHours(hours, minutes, 0, 0)\<close>: a missing part is \<^verbatim>\<open>undefined\<close>, which
  \<^verbatim>\<open>setHours\<close> turns into \<^verbatim>\<open>NaN\<close>.\<close>

definition medDateTime :: "runtime \<Rightarrow> int \<Rightarrow> string \<Rightarrow> timeval" where
  "medDateTime rt now t =
     (case splitColon t of
        [] \<Rightarrow> None
      | [hours] \<Rightarrow> setHours rt (Some now) (toInteger rt hours) None
      | hours # minutes # _ \<Rightarrow> setHours rt (Some now) (toInteger rt hours) (toInteger rt minutes))"

definition oneHourAfter :: "runtime \<Rightarrow> int \<Rightarrow> string \<Rightarrow> timeval" where
  "oneHourAfter rt now t = newDateOfNumber (js_add (medDateTime rt now t) (60 * 60 * 1000))"

definition twoHoursAfter :: "runtime \<Rightarrow> int \<Rightarrow> string \<Rightarrow> timeval" where
  "twoHoursAfter rt now t = newDateOfNumber (js_add (medDateTime rt now t) (2 * 60 * 60 * 1000))"

text \<open>The scheduling pass is the body of the effect. It runs at one reading \<open>now\<close> of the
  clock. For one clock-time of a timed medication:\<close>

definition scheduleSlot ::
  "runtime \<Rightarrow> int \<Rightarrow> string \<Rightarrow> (string \<rightharpoonup> bool) \<Rightarrow> string \<Rightarrow> string \<Rightarrow> string \<Rightarrow> engine \<Rightarrow> engine" where
  "scheduleSlot rt now todayKey storedTakenMeds medId name t s =
     (let medIdentifier = medId @ ''_'' @ t
      in if storedTakenMeds medIdentifier = Some True then s
         else if js_gt (oneHourAfter rt now t) (Some now) then
           (case setTimeout
                   (FirstReminder medIdentifier name t todayKey (twoHoursAfter rt now t))
                   now (js_sub (oneHourAfter rt now t) (Some now)) s of
              (i, s') \<Rightarrow>
                s'\<lparr>notificationTimers := AList.update medIdentifier i (notificationTimers s')\<rparr>)
         else s)"

text \<open>For one medication of the due-set: every clock-time in turn, or the general
  reminder, sent once a day.\<close>

definition generalReminder :: "string \<Rightarrow> due_med \<Rightarrow> engine \<Rightarrow> engine" where
  "generalReminder todayKey med s =
     (let generalMedIdentifier = ''general_'' @ med_id med @ ''_'' @ todayKey
      in if generalMedIdentifier \<notin> notifiedGeneral s \<and> permission s = ''granted'' then
           (showNotification (generalNotification (med_name med) (frequency med)) s)
             \<lparr>notifiedGeneral := insert generalMedIdentifier (notifiedGeneral s)\<rparr>
         else s)"

definition scheduleMed ::
  "runtime \<Rightarrow> int \<Rightarrow> string \<Rightarrow> (string \<rightharpoonup> bool) \<Rightarrow> due_med \<Rightarrow> engine \<Rightarrow> engine" where
  "scheduleMed rt now todayKey storedTakenMeds med s =
     (case times med of
        None \<Rightarrow> generalReminder todayKey med s
      | Some ts \<Rightarrow>
          if ts \<noteq> [] then
            fold (scheduleSlot rt now todayKey storedTakenMeds (med_id med) (med_name med)) ts s
          else generalReminder todayKey med s)"

definition schedulingPass :: "runtime \<Rightarrow> int \<Rightarrow> due_med list \<Rightarrow> engine \<Rightarrow> engine" where
  "schedulingPass rt now meds s =
     (let todayKey = isoDate rt now;
          storedTakenMeds = takenMedsOf (localStorage s) todayKey;
          s1 = s\<lparr>takenMedsState := storedTakenMeds\<rparr>;
          s2 = (clearAllTimers s1)\<lparr>notificationTimers := []\<rparr>;
          s3 = (if notifiedDate s2 \<noteq> Some todayKey
                then s2\<lparr>notifiedDate := Some todayKey, notifiedGeneral := {}\<rparr> else s2)
      in fold (scheduleMed rt now todayKey storedTakenMeds) meds s3)"

text \<open>The cleanup the effect returns, run before the next pass and on unmount.\<close>

definition cleanup :: "engine \<Rightarrow> engine" where
  "cleanup s = clearAllTimers s"

text \<open>A timeout fires: the browser drops it from its table and runs the callback, at a
  reading \<open>now\<close> of the clock that is not before \<open>fireAt\<close>.\<close>

definition emitUnlessTaken :: "string \<Rightarrow> string \<Rightarrow> notification \<Rightarrow> engine \<Rightarrow> engine" where
  "emitUnlessTaken todayKey medIdentifier n s =
     (if takenMedsOf (localStorage s) todayKey medIdentifier \<noteq> Some True
         \<and> permission s = ''granted''
      then showNotification n s else s)"

fun runCallback :: "int \<Rightarrow> callback \<Rightarrow> engine \<Rightarrow> engine" where
  "runCallback now (FirstReminder medIdentifier name t todayKey after2) s =
     (let s1 = emitUnlessTaken todayKey medIdentifier (firstNotification name t) s;
          s2 = (if js_gt after2 (Some now) then
                  (case setTimeout (SecondReminder medIdentifier name todayKey)
                          now (js_sub after2 (Some now)) s1 of
                     (i, s') \<Rightarrow>
                       s'\<lparr>notificationTimers :=
                            AList.update (medIdentifier @ ''_second'') i (notificationTimers s')\<rparr>)
                else s1)
      in s2\<lparr>notificationTimers := AList.delete medIdentifier (notificationTimers s2)\<rparr>)"
| "runCallback now (SecondReminder medIdentifier name todayKey) s =
     (let s1 = emitUnlessTaken todayKey medIdentifier (urgentNotification name) s
      in s1\<lparr>notificationTimers :=
              AList.delete (medIdentifier @ ''_second'') (notificationTimers s1)\<rparr>)"

definition fireTimer :: "int \<Rightarrow> nat \<Rightarrow> engine \<Rightarrow> engine" where
  "fireTimer now i s =
     (case pending s i of
        None \<Rightarrow> s
      | Some tm \<Rightarrow>
          if now < fireAt tm then s
          else runCallback now (action tm) (clearTimeout i s))"

text \<open>\<^verbatim>\<open>handleMarkTaken(medId, time)\<close>, called at \<open>now\<close>. A timer id is truthy when it is not
  zero.\<close>

definition clearPending :: "string \<Rightarrow> engine \<Rightarrow> engine" where
  "clearPending k s =
     (case map_of (notificationTimers s) k of
        None \<Rightarrow> s
      | Some i \<Rightarrow>
          if i \<noteq> 0
          then (clearTimeout i s)\<lparr>notificationTimers := AList.delete k (notificationTimers s)\<rparr>
          else s)"

definition handleMarkTaken :: "runtime \<Rightarrow> int \<Rightarrow> string \<Rightarrow> string \<Rightarrow> engine \<Rightarrow> engine" where
  "handleMarkTaken rt now medId t s =
     (let medIdentifier = medId @ ''_'' @ t;
          todayKey = isoDate rt now;
          newState = (takenMedsState s)(medIdentifier \<mapsto> True);
          s1 = s\<lparr>takenMedsState := newState,
                 localStorage := (localStorage s)(''takenMeds_'' @ todayKey \<mapsto> newState)\<rparr>
      in clearPending (medIdentifier @ ''_second'') (clearPending medIdentifier s1))"

text \<open>The keys under which the component holds a timer handle.\<close>

definition armedKeys :: "engine \<Rightarrow> string set" where
  "armedKeys s = fst ` set (notificationTimers s)"

text \<open>The state of a freshly mounted component: no timer, nothing notified, an empty
  React state. Timer ids start at 1.\<close>

definition mountedEngine :: "(string \<rightharpoonup> (string \<rightharpoonup> bool)) \<Rightarrow> string \<Rightarrow> engine" where
  "mountedEngine ls perm =
     \<lparr>localStorage = ls, takenMedsState = Map.empty, notificationTimers = [],
      notifiedDate = None, notifiedGeneral = {}, pending = Map.empty, nextTimerId = 1,
      permission = perm, notifications = []\<rparr>"

section \<open>The component over time\<close>

text \<open>What happens to a mounted component: React runs the effect (a scheduling pass over
  the due-set of the moment) or its cleanup, the user acknowledges a slot, the browser
  fires a timeout. A pass and an acknowledgement read the clock, and with it the day key;
  \<open>eventDay\<close> is that key. A run is a sequence of such events.\<close>

datatype event =
    Pass int "due_med list"
  | MarkTaken int string string
  | Fire int nat
  | Cleanup

fun step :: "runtime \<Rightarrow> event \<Rightarrow> engine \<Rightarrow> engine" where
  "step rt (Pass now meds) s = schedulingPass rt now meds s"
| "step rt (MarkTaken now medId t) s = handleMarkTaken rt now medId t s"
| "step rt (Fire now i) s = fireTimer now i s"
| "step rt Cleanup s = cleanup s"

definition run :: "runtime \<Rightarrow> event list \<Rightarrow> engine \<Rightarrow> engine" where
  "run rt es s = fold (step rt) es s"

fun eventDay :: "runtime \<Rightarrow> event \<Rightarrow> string option" where
  "eventDay rt (Pass now meds) = Some (isoDate rt now)"
| "eventDay rt (MarkTaken now medId t) = Some (isoDate rt now)"
| "eventDay rt (Fire now i) = None"
| "eventDay rt Cleanup = None"

text \<open>The store marks the key \<open>K\<close> taken on the day \<open>dk\<close>.\<close>

definition acknowledged :: "string \<Rightarrow> string \<Rightarrow> engine \<Rightarrow> bool" where
  "acknowledged dk K s = (takenMedsOf (localStorage s) dk K = Some True)"

text \<open>Notions the statements about a pass use. The clock-times of a due-set entry; a slot
  is armable when its key is not marked taken in the stored map and its first reminder,
  one hour after the clock-time, is still ahead of \<open>now\<close>; the keys of the armable slots
  of a due-set; and the timer a pass arms for an armable slot.\<close>

definition timesOf :: "due_med \<Rightarrow> string list" where
  "timesOf med = (case times med of None \<Rightarrow> [] | Some ts \<Rightarrow> ts)"

definition armable :: "runtime \<Rightarrow> int \<Rightarrow> (string \<rightharpoonup> bool) \<Rightarrow> string \<Rightarrow> string \<Rightarrow> bool" where
  "armable rt now storedTakenMeds medId t =
     (storedTakenMeds (medId @ ''_'' @ t) \<noteq> Some True \<and> js_gt (oneHourAfter rt now t) (Some now))"

definition armableKeys :: "runtime \<Rightarrow> int \<Rightarrow> (string \<rightharpoonup> bool) \<Rightarrow> due_med list \<Rightarrow> string set" where
  "armableKeys rt now storedTakenMeds meds =
     {med_id med @ ''_'' @ t | med t.
        med \<in> set meds \<and> t \<in> set (timesOf med) \<and> armable rt now storedTakenMeds (med_id med) t}"

definition firstTimer :: "runtime \<Rightarrow> int \<Rightarrow> string \<Rightarrow> string \<Rightarrow> string \<Rightarrow> string \<Rightarrow> timer" where
  "firstTimer rt now todayKey medId name t =
     \<lparr>fireAt = the (oneHourAfter rt now t),
      action = FirstReminder (medId @ ''_'' @ t) name t todayKey (twoHoursAfter rt now t)\<rparr>"








section \<open>An example runtime and example records\<close>

text \<open>A runtime in the UTC zone, with \<^verbatim>\<open>Date.parse\<close>, the conversion of clock-time parts
  and the ISO date given on the strings and days the examples use.\<close>

definition exampleRuntime :: runtime where
  "exampleRuntime =
     \<lparr>LocalTZA = (\<lambda>t isUTC. 0),
      dateParse = map_of [(''2024-01-01'', 1704067200000), (''2024-01-05'', 1704412800000),
                          (''2024-01-08'', 1704672000000), (''2024-01-20'', 1705708800000)],
      toInteger = map_of [(''00'', 0), (''09'', 9), (''21'', 21)],
      isoDate = (\<lambda>t. if Day t = 19723 then ''2024-01-01'' else ''another day'')\<rparr>"

definition exampleMed :: "string \<Rightarrow> string \<Rightarrow> medication" where
  "exampleMed f sd = \<lparr>med_id = ''m1'', med_name = ''Mesalamine'', frequency = f,
      medTimes = [''09:00''], startDate = sd\<rparr>"

definition exampleSupplement :: medication where
  "exampleSupplement = \<lparr>med_id = ''s1'', med_name = ''Iron'', frequency = ''Twice daily'',
      medTimes = [''09:00'', ''21:00''], startDate = []\<rparr>"

text \<open>The due-set of one medication taken once daily at 09:00, and the due-set of one
  taken twice daily whose two clock-times are both 09:00; a store in which the 09:00 slot
  of 1 January 2024 is marked taken; a component freshly mounted over an empty store, and
  one over that store; the empty table of timeouts.\<close>

definition exampleDueSet :: "due_med list" where
  "exampleDueSet = todaysMeds exampleRuntime 1704096000000 (Some (exampleMed ''Once daily'' [])) []"

definition exampleTwiceSameTime :: medication where
  "exampleTwiceSameTime = \<lparr>med_id = ''m1'', med_name = ''Mesalamine'', frequency = ''Twice daily'',
      medTimes = [''09:00'', ''09:00''], startDate = []\<rparr>"

definition duplicateDueSet :: "due_med list" where
  "duplicateDueSet = todaysMeds exampleRuntime 1704096000000 (Some exampleTwiceSameTime) []"

definition exampleStore :: "string \<rightharpoonup> (string \<rightharpoonup> bool)" where
  "exampleStore = [''takenMeds_2024-01-01'' \<mapsto> [''m1_09:00'' \<mapsto> True]]"

definition emptyStore :: "string \<rightharpoonup> (string \<rightharpoonup> bool)" where
  "emptyStore = Map.empty"

definition exampleEngine :: engine where
  "exampleEngine = mountedEngine emptyStore ''granted''"

definition acknowledgedEngine :: engine where
  "acknowledgedEngine = mountedEngine exampleStore ''granted''"

definition noPending :: "nat \<rightharpoonup> timer" where
  "noPending = Map.empty"

text \<open>Two further runtimes. New York in January: five hours behind UTC. Berlin around
  the change to summer time of 31 March 2024, at 01:00 UTC: one hour ahead before it, two
  after; a local time in the skipped hour is read with the earlier offset. In both a
  date-only string parses to midnight UTC of that date, as ECMAScript has it. With them,
  a medication taken once daily at 20:00 and its due-set.\<close>

definition newYorkRuntime :: runtime where
  "newYorkRuntime =
     \<lparr>LocalTZA = (\<lambda>t isUTC. - 18000000),
      dateParse = map_of [(''2024-01-01'', 1704067200000)],
      toInteger = map_of [(''00'', 0), (''20'', 20)],
      isoDate = (\<lambda>t. if Day t = 19723 then ''2024-01-01''
                      else if Day t = 19724 then ''2024-01-02'' else ''another day'')\<rparr>"

definition berlinRuntime :: runtime where
  "berlinRuntime =
     \<lparr>LocalTZA = (\<lambda>t isUTC. if isUTC then (if t < 1711846800000 then 3600000 else 7200000)
                               else (if t < 1711854000000 then 3600000 else 7200000)),
      dateParse = map_of [(''2024-03-25'', 1711324800000), (''2024-03-29'', 1711670400000)],
      toInteger = map_of [(''00'', 0), (''09'', 9)],
      isoDate = (\<lambda>t. ''another day'')\<rparr>"

definition eveningMed :: medication where
  "eveningMed = \<lparr>med_id = ''m1'', med_name = ''Mesalamine'', frequency = ''Once daily'',
      medTimes = [''20:00''], startDate = []\<rparr>"

definition eveningDueSet :: "due_med list" where
  "eveningDueSet = todaysMeds newYorkRuntime 1704114000000 (Some eveningMed) []"

section \<open>Facts about the example runtime\<close>

lemma exampleRuntime_startOfDay:
  "startOfDay exampleRuntime (Some t) = TimeClip (t div msPerDay * msPerDay)"
  by (simp add: startOfDay_def setHours_def exampleRuntime_def LocalTime_def UTC_def Day_def)

lemma exampleRuntime_dateParse:
  "dateParse exampleRuntime ''2024-01-01'' = Some 1704067200000"
  "dateParse exampleRuntime ''2024-01-05'' = Some 1704412800000"
  "dateParse exampleRuntime ''2024-01-08'' = Some 1704672000000"
  "dateParse exampleRuntime ''2024-01-20'' = Some 1705708800000"
  by (simp_all add: exampleRuntime_def)

lemma exampleRuntime_days:
  "startOfDay exampleRuntime (Some 1704448800000) = Some 1704412800000"
  "startOfDay exampleRuntime (Some 1704067200000) = Some 1704067200000"
  "startOfDay exampleRuntime (Some 1704672000000) = Some 1704672000000"
  by (simp_all add: exampleRuntime_startOfDay TimeClip_def msPerDay_def)

lemma exampleRuntime_WeekDay:
  "WeekDay (LocalTime exampleRuntime 1704067200000) = 1"
  "WeekDay (LocalTime exampleRuntime 1704672000000) = 1"
  by (simp_all add: WeekDay_def LocalTime_def exampleRuntime_def Day_def msPerDay_def)

section \<open>The frequency calculus\<close>

lemma js_rem_zero: "0 < k \<Longrightarrow> js_strict_eq (js_rem (Some x) k) (Some 0) = (x mod k = 0)"
proof -
  assume k: "0 < k"
  have "\<bar>x\<bar> mod k = 0 \<longleftrightarrow> x mod k = 0"
    by (metis abs_of_nonneg abs_of_nonpos dvd_minus_iff linear mod_eq_0_iff_dvd)
  with k show ?thesis
    by (auto simp: js_strict_eq_def js_rem_def sgn_if)
qed

lemma interval_test:
  "(js_ge (diffDays t s) (Some 0) \<and> js_strict_eq (js_rem (diffDays t s) N) (Some 0)) =
     (case (t, s) of
        (Some a, Some b) \<Rightarrow> 0 \<le> (a - b) div msPerDay \<and> ((a - b) div msPerDay) mod N = 0
      | _ \<Rightarrow> False)" if "0 < N"
proof (cases t)
  case None
  then show ?thesis
    by (simp add: diffDays_def js_floor_div_def js_sub_def js_ge_def)
next
  case t: (Some a)
  show ?thesis
  proof (cases s)
    case None
    with t show ?thesis
      by (simp add: diffDays_def js_floor_div_def js_sub_def js_ge_def)
  next
    case (Some b)
    have d: "diffDays t s = Some ((a - b) div msPerDay)"
      using t Some by (simp add: diffDays_def js_floor_div_def js_sub_def)
    show ?thesis
      unfolding d js_rem_zero [OF that] using t Some by (simp add: js_ge_def)
  qed
qed

lemma dueSwitch_interval:
  assumes "f = ''Every other day'' \<and> N = 2 \<or> f = ''Every three days'' \<and> N = 3
           \<or> f = ''Every four days'' \<and> N = 4"
  shows "dueSwitch rt f (Some s) t =
     (case (t, s) of
        (Some a, Some b) \<Rightarrow> 0 \<le> (a - b) div msPerDay \<and> ((a - b) div msPerDay) mod N = 0
      | _ \<Rightarrow> False)"
proof -
  have "dueSwitch rt ''Every other day'' (Some s) t =
     (case (t, s) of
        (Some a, Some b) \<Rightarrow> 0 \<le> (a - b) div msPerDay \<and> ((a - b) div msPerDay) mod 2 = 0
      | _ \<Rightarrow> False)"
    by (simp add: dueSwitch_def Let_def interval_test)
  moreover have "dueSwitch rt ''Every three days'' (Some s) t =
     (case (t, s) of
        (Some a, Some b) \<Rightarrow> 0 \<le> (a - b) div msPerDay \<and> ((a - b) div msPerDay) mod 3 = 0
      | _ \<Rightarrow> False)"
    by (simp add: dueSwitch_def Let_def interval_test)
  moreover have "dueSwitch rt ''Every four days'' (Some s) t =
     (case (t, s) of
        (Some a, Some b) \<Rightarrow> 0 \<le> (a - b) div msPerDay \<and> ((a - b) div msPerDay) mod 4 = 0
      | _ \<Rightarrow> False)"
    by (simp add: dueSwitch_def Let_def interval_test)
  ultimately show ?thesis
    using assms by (elim disjE conjE) (simp_all only:)
qed

lemma isDue_switch:
  assumes "frequency m \<noteq> []" "frequency m \<noteq> ''As needed''" "startDate m \<noteq> []"
  shows "due (isMedicationDueToday rt (Some m) queryDate) =
      dueSwitch rt (frequency m)
        (Some (startOfDay rt (dateParse rt (startDate m)))) (startOfDay rt queryDate)"
  using assms by (simp add: isMedicationDueToday_def Let_def newDateOfString_def)

text \<open>What the interval branches compute, in the instants the code works with: the query
  date set to its local midnight, and the instant parsed from the start date string set
  to the local midnight before it. With \<open>d\<close> the floor of their difference over the
  milliseconds of a day, the result is \<open>d \<ge> 0\<close> and \<open>d mod N = 0\<close>. Whether \<open>d\<close> is the
  number of calendar days from the start date depends on the runtime.\<close>

lemma isDue_interval_kinds:
  assumes "frequency m = ''Every other day'' \<and> N = 2
           \<or> frequency m = ''Every three days'' \<and> N = 3
           \<or> frequency m = ''Every four days'' \<and> N = 4"
    and "startDate m \<noteq> []"
  shows "due (isMedicationDueToday rt (Some m) queryDate) =
           (case (startOfDay rt queryDate, startOfDay rt (dateParse rt (startDate m))) of
              (Some a, Some b) \<Rightarrow>
                (let d = \<lfloor>real_of_int (a - b) / real_of_int msPerDay\<rfloor>
                 in 0 \<le> d \<and> d mod N = 0)
            | _ \<Rightarrow> False)
         \<and> (frequency m = ''Every other day'' \<longrightarrow>
              due (isMedicationDueToday rt (Some m) queryDate) =
                (case (startOfDay rt queryDate, startOfDay rt (dateParse rt (startDate m))) of
                   (Some a, Some b) \<Rightarrow>
                     (let d = \<lfloor>real_of_int (a - b) / real_of_int msPerDay\<rfloor>
                      in 0 \<le> d \<and> even d)
                 | _ \<Rightarrow> False))"
proof -
  have f: "frequency m \<noteq> [] \<and> frequency m \<noteq> ''As needed''"
    using assms(1) by (elim disjE conjE) simp_all
  have main: "due (isMedicationDueToday rt (Some m) queryDate) =
           (case (startOfDay rt queryDate, startOfDay rt (dateParse rt (startDate m))) of
              (Some a, Some b) \<Rightarrow>
                (let d = \<lfloor>real_of_int (a - b) / real_of_int msPerDay\<rfloor>
                 in 0 \<le> d \<and> d mod N = 0)
            | _ \<Rightarrow> False)"
    unfolding isDue_switch [OF conjunct1 [OF f] conjunct2 [OF f] assms(2)]
      dueSwitch_interval [OF assms(1)]
    by (simp only: floor_divide_of_int_eq Let_def)
  have n2: "N = 2" if "frequency m = ''Every other day''"
    using assms(1) that by (elim disjE conjE) simp_all
  have "frequency m = ''Every other day'' \<longrightarrow>
              due (isMedicationDueToday rt (Some m) queryDate) =
                (case (startOfDay rt queryDate, startOfDay rt (dateParse rt (startDate m))) of
                   (Some a, Some b) \<Rightarrow>
                     (let d = \<lfloor>real_of_int (a - b) / real_of_int msPerDay\<rfloor>
                      in 0 \<le> d \<and> even d)
                 | _ \<Rightarrow> False)"
  proof
    assume "frequency m = ''Every other day''"
    then have N: "N = 2" by (rule n2)
    show "due (isMedicationDueToday rt (Some m) queryDate) =
                (case (startOfDay rt queryDate, startOfDay rt (dateParse rt (startDate m))) of
                   (Some a, Some b) \<Rightarrow>
                     (let d = \<lfloor>real_of_int (a - b) / real_of_int msPerDay\<rfloor>
                      in 0 \<le> d \<and> even d)
                 | _ \<Rightarrow> False)"
      by (subst main) (simp only: N Let_def even_iff_mod_2_eq_zero)
  qed
  with main show ?thesis by (rule conjI)
qed

text \<open>Claim C4, at inputs on which the code departs from it. In New York a medication
  taken every other day from 2024-01-01 is not due on 1 January, its start date, and is
  due on 31 December, the day before: the date string parses to midnight UTC, which is
  the evening of 31 December there, and is then set to the local midnight before it. In
  Berlin a medication taken every other day from 2024-03-29 is due on 31 March and again
  on 1 April: the night of 31 March lasts 23 hours, and the floor of the difference counts
  one day less from then on.\<close>

theorem interval_due_off_the_start_date:
  "dateParse newYorkRuntime ''2024-01-01'' = Some 1704067200000
   \<and> Day 1704067200000 = 19723
   \<and> Day (LocalTime newYorkRuntime 1704128400000) = 19723
   \<and> \<not> due (isMedicationDueToday newYorkRuntime
               (Some (exampleMed ''Every other day'' ''2024-01-01'')) (Some 1704128400000))
   \<and> Day (LocalTime newYorkRuntime 1704042000000) = 19722
   \<and> due (isMedicationDueToday newYorkRuntime
             (Some (exampleMed ''Every other day'' ''2024-01-01'')) (Some 1704042000000))
   \<and> dateParse berlinRuntime ''2024-03-29'' = Some 1711670400000
   \<and> Day 1711670400000 = 19811
   \<and> Day (LocalTime berlinRuntime 1711879200000) = 19813
   \<and> due (isMedicationDueToday berlinRuntime
             (Some (exampleMed ''Every other day'' ''2024-03-29'')) (Some 1711879200000))
   \<and> Day (LocalTime berlinRuntime 1711965600000) = 19814
   \<and> due (isMedicationDueToday berlinRuntime
             (Some (exampleMed ''Every other day'' ''2024-03-29'')) (Some 1711965600000))"
  by code_simp

lemma weekday_test:
  "js_strict_eq (getDay rt t) (getDay rt s) =
     (case (t, s) of
        (Some a, Some b) \<Rightarrow> WeekDay (LocalTime rt a) = WeekDay (LocalTime rt b)
      | _ \<Rightarrow> False)"
  by (cases t; cases s) (simp_all add: js_strict_eq_def getDay_def)

lemma js_rem_even: "js_strict_eq (js_rem (js_floor_div (Some x) 7) 2) (Some 0) = (x div 7 mod 2 = 0)"
  by (simp add: js_floor_div_def js_rem_zero)

lemma biweekly_test:
  "(js_strict_eq (getDay rt t) (getDay rt s)
      \<and> js_strict_eq (js_rem (js_floor_div (diffDays t s) 7) 2) (Some 0)) =
     (case (t, s) of
        (Some a, Some b) \<Rightarrow> WeekDay (LocalTime rt a) = WeekDay (LocalTime rt b)
            \<and> (a - b) div msPerDay div 7 mod 2 = 0
      | _ \<Rightarrow> False)"
proof (cases t)
  case None
  then show ?thesis by (simp add: weekday_test)
next
  case t: (Some a)
  show ?thesis
  proof (cases s)
    case None
    with t show ?thesis by (simp add: weekday_test)
  next
    case (Some b)
    have d: "diffDays t s = Some ((a - b) div msPerDay)"
      using t Some by (simp add: diffDays_def js_floor_div_def js_sub_def)
    show ?thesis
      unfolding d js_rem_even weekday_test using t Some by simp
  qed
qed

text \<open>What the bi-weekly branch computes, on the same two instants: the result is true
  exactly when they fall on one weekday and \<open>\<lfloor>d / 7\<rfloor> mod 2 = 0\<close>; where \<open>d = 7\<close> it is
  false.\<close>

lemma isDue_biweekly:
  assumes "frequency m = ''Bi-weekly''" and "startDate m \<noteq> []"
  shows "due (isMedicationDueToday rt (Some m) queryDate) =
           (case (startOfDay rt queryDate, startOfDay rt (dateParse rt (startDate m))) of
              (Some a, Some b) \<Rightarrow>
                (let d = \<lfloor>real_of_int (a - b) / real_of_int msPerDay\<rfloor>
                 in WeekDay (LocalTime rt a) = WeekDay (LocalTime rt b)
                    \<and> \<lfloor>real_of_int d / 7\<rfloor> mod 2 = 0)
            | _ \<Rightarrow> False)
         \<and> (\<forall>a b. startOfDay rt queryDate = Some a
                \<and> startOfDay rt (dateParse rt (startDate m)) = Some b
                \<and> \<lfloor>real_of_int (a - b) / real_of_int msPerDay\<rfloor> = 7
              \<longrightarrow> \<not> due (isMedicationDueToday rt (Some m) queryDate))"
proof -
  have f: "frequency m \<noteq> []" "frequency m \<noteq> ''As needed''"
    using assms(1) by simp_all
  have seven: "\<lfloor>real_of_int d / 7\<rfloor> = d div 7" for d :: int
    using floor_divide_of_int_eq [of d 7] by simp
  have sw: "dueSwitch rt ''Bi-weekly'' (Some s) t =
     (case (t, s) of
        (Some a, Some b) \<Rightarrow> WeekDay (LocalTime rt a) = WeekDay (LocalTime rt b)
            \<and> (a - b) div msPerDay div 7 mod 2 = 0
      | _ \<Rightarrow> False)" for s t
    by (simp add: dueSwitch_def Let_def biweekly_test)
  have main: "due (isMedicationDueToday rt (Some m) queryDate) =
           (case (startOfDay rt queryDate, startOfDay rt (dateParse rt (startDate m))) of
              (Some a, Some b) \<Rightarrow>
                (let d = \<lfloor>real_of_int (a - b) / real_of_int msPerDay\<rfloor>
                 in WeekDay (LocalTime rt a) = WeekDay (LocalTime rt b)
                    \<and> \<lfloor>real_of_int d / 7\<rfloor> mod 2 = 0)
            | _ \<Rightarrow> False)"
    unfolding isDue_switch [OF f assms(2)] assms(1) sw
    by (simp only: floor_divide_of_int_eq Let_def seven)
  have "\<not> due (isMedicationDueToday rt (Some m) queryDate)"
    if "startOfDay rt queryDate = Some a \<and> startOfDay rt (dateParse rt (startDate m)) = Some b
          \<and> \<lfloor>real_of_int (a - b) / real_of_int msPerDay\<rfloor> = 7" for a b
    using that unfolding main by (simp add: Let_def)
  with main show ?thesis by blast
qed

text \<open>Claim C5, at an input on which the code departs from it. In Berlin a bi-weekly
  medication from Monday 2024-03-25 is due on that Monday and due again on Monday 1 April,
  the same weekday of the next week: summer time begins in between, the two local
  midnights are seven days less one hour apart, so \<open>d\<close> is 6 and still falls in the first
  block of seven days.\<close>

theorem biweekly_due_on_consecutive_weeks:
  "dateParse berlinRuntime ''2024-03-25'' = Some 1711324800000
   \<and> Day 1711324800000 = 19807 \<and> WeekDay 1711324800000 = 1
   \<and> Day (LocalTime berlinRuntime 1711364400000) = 19807
   \<and> WeekDay (LocalTime berlinRuntime 1711364400000) = 1
   \<and> due (isMedicationDueToday berlinRuntime
             (Some (exampleMed ''Bi-weekly'' ''2024-03-25'')) (Some 1711364400000))
   \<and> Day (LocalTime berlinRuntime 1711965600000) = 19814
   \<and> WeekDay (LocalTime berlinRuntime 1711965600000) = 1
   \<and> due (isMedicationDueToday berlinRuntime
             (Some (exampleMed ''Bi-weekly'' ''2024-03-25'')) (Some 1711965600000))"
  by code_simp

text \<open>What the weekly branch computes, on the same two instants: it compares their
  weekdays and nothing else, whichever of the two is the earlier.\<close>

lemma weekly_due_on_matching_weekday:
  assumes "frequency m = ''Weekly''" and "startDate m \<noteq> []"
  shows "due (isMedicationDueToday rt (Some m) queryDate) =
           (case (startOfDay rt queryDate, startOfDay rt (dateParse rt (startDate m))) of
              (Some a, Some b) \<Rightarrow> WeekDay (LocalTime rt a) = WeekDay (LocalTime rt b)
            | _ \<Rightarrow> False)"
proof -
  have f: "frequency m \<noteq> []" "frequency m \<noteq> ''As needed''"
    using assms(1) by simp_all
  have sw: "dueSwitch rt ''Weekly'' (Some s) t =
     (case (t, s) of
        (Some a, Some b) \<Rightarrow> WeekDay (LocalTime rt a) = WeekDay (LocalTime rt b)
      | _ \<Rightarrow> False)" for s t
    by (simp add: dueSwitch_def weekday_test)
  show ?thesis
    unfolding isDue_switch [OF f assms(2)] assms(1) sw ..
qed

text \<open>Claim C10, at an input on which the code departs from it. In New York a weekly
  medication from Monday 2024-01-01 is not due on that Monday nor on Monday 8 January, and
  is due on Sundays, such as 24 December before the start date: the weekday the code
  compares with is that of the local day on which midnight UTC of the start date falls,
  the day before.\<close>

theorem weekly_not_due_on_start_weekday:
  "dateParse newYorkRuntime ''2024-01-01'' = Some 1704067200000
   \<and> Day 1704067200000 = 19723 \<and> WeekDay 1704067200000 = 1
   \<and> Day (LocalTime newYorkRuntime 1704128400000) = 19723
   \<and> \<not> due (isMedicationDueToday newYorkRuntime
               (Some (exampleMed ''Weekly'' ''2024-01-01'')) (Some 1704128400000))
   \<and> WeekDay (LocalTime newYorkRuntime 1704733200000) = 1
   \<and> \<not> due (isMedicationDueToday newYorkRuntime
               (Some (exampleMed ''Weekly'' ''2024-01-01'')) (Some 1704733200000))
   \<and> WeekDay (LocalTime newYorkRuntime 1703437200000) = 0
   \<and> due (isMedicationDueToday newYorkRuntime
             (Some (exampleMed ''Weekly'' ''2024-01-01'')) (Some 1703437200000))"
  by code_simp

text \<open>Claim C8. For a medication whose frequency is one of the interval kinds, weekly or
  bi-weekly and whose start date is absent, \<^verbatim>\<open>isMedicationDueToday\<close> returns false for
  every query date, writes one warning to the console and leaves its argument as it was.
  No operation of the function raises: its outcome is always a value.\<close>

theorem missing_startDate_never_due:
  assumes "frequency m = ''Every other day'' \<or> frequency m = ''Every three days''
           \<or> frequency m = ''Every four days'' \<or> frequency m = ''Weekly''
           \<or> frequency m = ''Bi-weekly''"
    and "startDate m = []"
  shows "isMedicationDueToday rt (Some m) queryDate =
           \<lparr>due = False, warnings = [noStartDateWarning m], todayAfter = queryDate\<rparr>"
proof -
  have "frequency m \<noteq> [] \<and> frequency m \<noteq> ''As needed'' \<and> requiresStartDate (frequency m)"
    using assms(1) by (elim disjE) (simp_all add: requiresStartDate_def)
  then show ?thesis
    using assms(2) by (simp add: isMedicationDueToday_def)
qed

theorem missing_startDate_never_due_witness:
  "(frequency (exampleMed ''Weekly'' []) = ''Every other day''
      \<or> frequency (exampleMed ''Weekly'' []) = ''Every three days''
      \<or> frequency (exampleMed ''Weekly'' []) = ''Every four days''
      \<or> frequency (exampleMed ''Weekly'' []) = ''Weekly''
      \<or> frequency (exampleMed ''Weekly'' []) = ''Bi-weekly'')
   \<and> startDate (exampleMed ''Weekly'' []) = []
   \<and> isMedicationDueToday exampleRuntime (Some (exampleMed ''Weekly'' [])) (Some 1704067200000) =
        \<lparr>due = False,
         warnings = [''Medication \"Mesalamine\" has a recurring frequency but no start date. Cannot determine if due today.''],
         todayAfter = Some 1704067200000\<rparr>"
proof -
  let ?m = "exampleMed ''Weekly'' []"
  have h1: "frequency ?m = ''Every other day'' \<or> frequency ?m = ''Every three days''
           \<or> frequency ?m = ''Every four days'' \<or> frequency ?m = ''Weekly''
           \<or> frequency ?m = ''Bi-weekly''"
    by (simp add: exampleMed_def)
  have h2: "startDate ?m = []" by (simp add: exampleMed_def)
  have w: "noStartDateWarning ?m = ''Medication \"Mesalamine\" has a recurring frequency but no start date. Cannot determine if due today.''"
    by (simp add: noStartDateWarning_def exampleMed_def)
  from h1 h2 missing_startDate_never_due [OF h1 h2, of exampleRuntime "Some 1704067200000"]
  show ?thesis unfolding w by (intro conjI)
qed

section \<open>The dose requirement calculator\<close>

lemma ceil_div_ceiling: "ceil_div x k = \<lceil>real_of_int x / real_of_int k\<rceil>"
  by (simp add: ceil_div_def ceiling_divide_eq_div)

text \<open>Claim C7. For a positive number of days \<open>n\<close>, \<^verbatim>\<open>calculateDosesNeeded\<close> returns \<open>n\<close>,
  \<open>2 n\<close> and \<open>3 n\<close> for the daily kinds, the ceiling of \<open>n / N\<close> for the interval kinds
  (\<open>N\<close> = 2, 3, 4), of \<open>n / 7\<close> for weekly and of \<open>n / 14\<close> for bi-weekly, and 0 for as
  needed, whatever the duration; twice daily over 5 days needs 10 doses and weekly over 10
  days needs 2.\<close>

theorem calculateDosesNeeded_table:
  assumes "0 < n"
  shows "calculateDosesNeeded ''Once daily'' (Some n) = n
   \<and> calculateDosesNeeded ''Twice daily'' (Some n) = 2 * n
   \<and> calculateDosesNeeded ''Three times daily'' (Some n) = 3 * n
   \<and> calculateDosesNeeded ''Every other day'' (Some n) = \<lceil>real_of_int n / 2\<rceil>
   \<and> calculateDosesNeeded ''Every three days'' (Some n) = \<lceil>real_of_int n / 3\<rceil>
   \<and> calculateDosesNeeded ''Every four days'' (Some n) = \<lceil>real_of_int n / 4\<rceil>
   \<and> calculateDosesNeeded ''Weekly'' (Some n) = \<lceil>real_of_int n / 7\<rceil>
   \<and> calculateDosesNeeded ''Bi-weekly'' (Some n) = \<lceil>real_of_int n / 14\<rceil>
   \<and> calculateDosesNeeded ''As needed'' d = 0
   \<and> calculateDosesNeeded ''Twice daily'' (Some 5) = 10
   \<and> calculateDosesNeeded ''Weekly'' (Some 10) = 2"
  using assms
  by (simp add: calculateDosesNeeded_def ceil_div_ceiling split: option.splits)

theorem calculateDosesNeeded_table_witness:
  "(0::int) < 9
   \<and> calculateDosesNeeded ''Once daily'' (Some 9) = 9
   \<and> calculateDosesNeeded ''Twice daily'' (Some 9) = 18
   \<and> calculateDosesNeeded ''Three times daily'' (Some 9) = 27
   \<and> calculateDosesNeeded ''Every other day'' (Some 9) = 5
   \<and> calculateDosesNeeded ''Every three days'' (Some 9) = 3
   \<and> calculateDosesNeeded ''Every four days'' (Some 9) = 3
   \<and> calculateDosesNeeded ''Weekly'' (Some 9) = 2
   \<and> calculateDosesNeeded ''Bi-weekly'' (Some 9) = 1
   \<and> calculateDosesNeeded ''As needed'' (Some 9) = 0"
proof -
  have h: "(0::int) < 9" by simp
  show ?thesis
    using calculateDosesNeeded_table [OF h, of "Some 9"] by simp
qed

lemma calculatedSupplements_map_of:
  "calculatedSupplements d sups acc =
     acc ++ map_of (rev (map (\<lambda>s. (med_name s, calculateDosesNeeded (frequency s) d)) sups))"
proof (induction sups arbitrary: acc)
  case Nil
  show ?case by simp
next
  case (Cons s ss)
  let ?f = "\<lambda>s. (med_name s, calculateDosesNeeded (frequency s) d)"
  have "map_of (rev (map ?f (s # ss))) = [fst (?f s) \<mapsto> snd (?f s)] ++ map_of (rev (map ?f ss))"
    by (simp only: list.map rev.simps map_of_append) simp
  moreover have "acc ++ ([fst (?f s) \<mapsto> snd (?f s)] ++ map_of (rev (map ?f ss)))
      = acc(fst (?f s) \<mapsto> snd (?f s)) ++ map_of (rev (map ?f ss))"
    by (rule ext) (simp add: map_add_def split: option.splits)
  ultimately show ?case
    by (simp only: calculatedSupplements.simps Cons.IH fst_conv snd_conv)
qed

lemma tripDurationDays_ceiling:
  assumes "dateParse rt departureDate = Some dep" and "dateParse rt returnDate = Some ret"
  shows "tripDurationDays rt departureDate returnDate =
           Some (\<lceil>real_of_int \<bar>ret - dep\<bar> / real_of_int msPerDay\<rceil> + 1)"
  using assms
  by (simp only: tripDurationDays_def newDateOfString_def Let_def js_sub_def js_abs_def
      js_ceil_div_def js_add_def ceil_div_ceiling prod.case option.case)

lemma extraDoses_Some:
  "extraDoses (Some n) = (if n < 14 then 2 else if n \<le> 30 then 3 else 4)"
  by (simp add: extraDoses_def js_lt_def js_le_def)

text \<open>Claim C6. With both trip dates valid, the duration in days is the ceiling of the
  absolute difference of the two dates over the milliseconds of a day, plus one. The
  primary medication's count is its doses for that duration plus a buffer of 2 below 14
  days, 3 up to 30 days and 4 beyond; each supplement's count is its doses for the duration
  and no more (of two supplements of one name, the later one's). A primary medication
  taken once daily needs 7 doses for 5 days and 23 for 20 days.\<close>

theorem travel_buffer_primary_only:
  assumes "departureDate \<noteq> []" and "returnDate \<noteq> []"
    and "dateParse rt departureDate = Some dep" and "dateParse rt returnDate = Some ret"
    and "durationDays = \<lceil>real_of_int \<bar>ret - dep\<bar> / real_of_int msPerDay\<rceil> + 1"
  shows "primaryMedNeeded (travelEffect rt departureDate returnDate (Some m) sups) =
           calculateDosesNeeded (frequency m) (Some durationDays)
           + (if durationDays < 14 then 2 else if durationDays \<le> 30 then 3 else 4)
       \<and> supplementsNeeded (travelEffect rt departureDate returnDate mainIbdMed sups) =
           map_of (rev (map (\<lambda>s. (med_name s,
                                     calculateDosesNeeded (frequency s) (Some durationDays))) sups))
       \<and> (frequency m = ''Once daily'' \<and> durationDays = 5 \<longrightarrow>
            primaryMedNeeded (travelEffect rt departureDate returnDate (Some m) sups) = 7)
       \<and> (frequency m = ''Once daily'' \<and> durationDays = 20 \<longrightarrow>
            primaryMedNeeded (travelEffect rt departureDate returnDate (Some m) sups) = 23)"
proof -
  have d: "tripDurationDays rt departureDate returnDate = Some durationDays"
    unfolding assms(5) by (rule tripDurationDays_ceiling [OF assms(3,4)])
  have p: "primaryMedNeeded (travelEffect rt departureDate returnDate (Some m) sups) =
           calculateDosesNeeded (frequency m) (Some durationDays)
           + (if durationDays < 14 then 2 else if durationDays \<le> 30 then 3 else 4)"
    using assms(1,2) by (simp add: travelEffect_def Let_def d extraDoses_Some)
  have s: "supplementsNeeded (travelEffect rt departureDate returnDate mainIbdMed sups) =
           map_of (rev (map (\<lambda>s. (med_name s,
                                     calculateDosesNeeded (frequency s) (Some durationDays))) sups))"
    using assms(1,2) by (simp add: travelEffect_def Let_def d calculatedSupplements_map_of)
  have e5: "primaryMedNeeded (travelEffect rt departureDate returnDate (Some m) sups) = 7"
    if "frequency m = ''Once daily'' \<and> durationDays = 5"
    unfolding p using that by (simp add: calculateDosesNeeded_def)
  have e20: "primaryMedNeeded (travelEffect rt departureDate returnDate (Some m) sups) = 23"
    if "frequency m = ''Once daily'' \<and> durationDays = 20"
    unfolding p using that by (simp add: calculateDosesNeeded_def)
  from p s e5 e20 show ?thesis by blast
qed

theorem travel_buffer_primary_only_witness:
  "''2024-01-01'' \<noteq> [] \<and> ''2024-01-05'' \<noteq> []
   \<and> dateParse exampleRuntime ''2024-01-01'' = Some 1704067200000
   \<and> dateParse exampleRuntime ''2024-01-05'' = Some 1704412800000
   \<and> (5::int) = \<lceil>real_of_int \<bar>1704412800000 - 1704067200000\<bar> / real_of_int msPerDay\<rceil> + 1
   \<and> frequency (exampleMed ''Once daily'' []) = ''Once daily''
   \<and> primaryMedNeeded (travelEffect exampleRuntime ''2024-01-01'' ''2024-01-05''
         (Some (exampleMed ''Once daily'' [])) [exampleSupplement]) = 7
   \<and> supplementsNeeded (travelEffect exampleRuntime ''2024-01-01'' ''2024-01-05''
         (Some (exampleMed ''Once daily'' [])) [exampleSupplement]) ''Iron'' = Some 10"
proof -
  let ?m = "exampleMed ''Once daily'' []"
  have a1: "''2024-01-01'' \<noteq> []" and a2: "''2024-01-05'' \<noteq> []" by simp_all
  have a3: "dateParse exampleRuntime ''2024-01-01'' = Some 1704067200000"
    and a4: "dateParse exampleRuntime ''2024-01-05'' = Some 1704412800000"
    by (rule exampleRuntime_dateParse)+
  have a5: "(5::int) = \<lceil>real_of_int \<bar>1704412800000 - 1704067200000\<bar> / real_of_int msPerDay\<rceil> + 1"
    by (simp add: msPerDay_def)
  have f: "frequency ?m = ''Once daily''" by (simp add: exampleMed_def)
  note th = travel_buffer_primary_only [OF a1 a2 a3 a4 a5, of ?m "[exampleSupplement]" "Some ?m"]
  have p: "primaryMedNeeded (travelEffect exampleRuntime ''2024-01-01'' ''2024-01-05''
         (Some ?m) [exampleSupplement]) = 7"
    using th f by blast
  have "supplementsNeeded (travelEffect exampleRuntime ''2024-01-01'' ''2024-01-05''
         (Some ?m) [exampleSupplement]) ''Iron'' = Some 10"
    unfolding th [THEN conjunct2, THEN conjunct1]
    by (simp add: exampleSupplement_def calculateDosesNeeded_def)
  with a1 a2 a3 a4 a5 f p show ?thesis by (intro conjI)
qed

section \<open>The scheduling pass: which timers it arms\<close>

lemma scheduleSlot_armable:
  assumes "armable rt now st medId t"
  shows "scheduleSlot rt now dk st medId name t s =
     s\<lparr>pending := (pending s)(nextTimerId s \<mapsto> firstTimer rt now dk medId name t),
       nextTimerId := Suc (nextTimerId s),
       notificationTimers := AList.update (medId @ ''_'' @ t) (nextTimerId s) (notificationTimers s)\<rparr>"
proof -
  from assms obtain a where a: "oneHourAfter rt now t = Some a" "now < a"
    by (auto simp: armable_def js_gt_def split: option.splits)
  show ?thesis
    using assms a
    by (simp add: scheduleSlot_def armable_def setTimeout_def Let_def js_sub_def firstTimer_def)
qed

lemma scheduleSlot_not_armable:
  assumes "\<not> armable rt now st medId t"
  shows "scheduleSlot rt now dk st medId name t s = s"
  using assms by (auto simp: scheduleSlot_def armable_def Let_def)

lemma armedKeys_scheduleSlot:
  "armedKeys (scheduleSlot rt now dk st medId name t s) =
     armedKeys s \<union> (if armable rt now st medId t then {medId @ ''_'' @ t} else {})"
  by (simp add: scheduleSlot_armable scheduleSlot_not_armable armedKeys_def dom_update)

lemma armedKeys_fold_scheduleSlot:
  "armedKeys (fold (scheduleSlot rt now dk st medId name) ts s) =
     armedKeys s \<union> {medId @ ''_'' @ t | t. t \<in> set ts \<and> armable rt now st medId t}"
proof (induction ts arbitrary: s)
  case Nil
  show ?case by simp
next
  case (Cons t ts)
  show ?case
    unfolding fold_simps Cons.IH armedKeys_scheduleSlot by auto
qed

lemma notificationTimers_generalReminder:
  "notificationTimers (generalReminder dk med s) = notificationTimers s"
  by (simp add: generalReminder_def Let_def showNotification_def)

lemma armedKeys_scheduleMed:
  "armedKeys (scheduleMed rt now dk st med s) =
     armedKeys s \<union> {med_id med @ ''_'' @ t | t. t \<in> set (timesOf med) \<and> armable rt now st (med_id med) t}"
proof (cases "times med")
  case None
  then show ?thesis
    by (simp add: scheduleMed_def timesOf_def armedKeys_def notificationTimers_generalReminder)
next
  case (Some ts)
  then show ?thesis
    by (cases "ts = []")
       (simp_all add: scheduleMed_def timesOf_def armedKeys_fold_scheduleSlot,
        simp add: armedKeys_def notificationTimers_generalReminder)
qed

lemma armedKeys_fold_scheduleMed:
  "armedKeys (fold (scheduleMed rt now dk st) meds s) = armedKeys s \<union> armableKeys rt now st meds"
proof (induction meds arbitrary: s)
  case Nil
  show ?case by (simp add: armableKeys_def)
next
  case (Cons med meds)
  show ?case
    unfolding fold_simps Cons.IH armedKeys_scheduleMed by (auto simp: armableKeys_def)
qed

lemma notificationTimers_clearAllTimers_aux:
  "notificationTimers (fold (\<lambda>(timerId, i). clearTimeout i) al s) = notificationTimers s"
  by (induction al arbitrary: s) (auto simp: clearTimeout_def)

lemma localStorage_clearAllTimers_aux:
  "localStorage (fold (\<lambda>(timerId, i). clearTimeout i) al s) = localStorage s"
  by (induction al arbitrary: s) (auto simp: clearTimeout_def)

lemma armedKeys_schedulingPass:
  "armedKeys (schedulingPass rt now meds s) =
     armableKeys rt now (takenMedsOf (localStorage s) (isoDate rt now)) meds"
  by (simp add: schedulingPass_def Let_def armedKeys_fold_scheduleMed)
     (simp add: armedKeys_def)

lemma fold_clearTimeout_fields:
  "notificationTimers (fold (\<lambda>(timerId, i). clearTimeout i) al s) = notificationTimers s"
  "localStorage (fold (\<lambda>(timerId, i). clearTimeout i) al s) = localStorage s"
  "notifications (fold (\<lambda>(timerId, i). clearTimeout i) al s) = notifications s"
  "nextTimerId (fold (\<lambda>(timerId, i). clearTimeout i) al s) = nextTimerId s"
  by (induction al arbitrary: s; auto simp: clearTimeout_def)+

lemma pending_fold_clearTimeout:
  "pending (fold (\<lambda>(timerId, i). clearTimeout i) al s) j =
     (if j \<in> snd ` set al then None else pending s j)"
  by (induction al arbitrary: s) (auto simp: clearTimeout_def)

lemma clearAllTimers_fields:
  "notificationTimers (clearAllTimers s) = notificationTimers s"
  "localStorage (clearAllTimers s) = localStorage s"
  "notifications (clearAllTimers s) = notifications s"
  "nextTimerId (clearAllTimers s) = nextTimerId s"
  by (simp_all add: clearAllTimers_def fold_clearTimeout_fields)

lemma pending_clearAllTimers:
  "pending (clearAllTimers s) j =
     (if j \<in> snd ` set (notificationTimers s) then None else pending s j)"
  by (simp add: clearAllTimers_def pending_fold_clearTimeout)

lemma scheduleSlot_frame:
  "localStorage (scheduleSlot rt now dk st medId name t s) = localStorage s"
  "notifications (scheduleSlot rt now dk st medId name t s) = notifications s"
  by (cases "armable rt now st medId t";
      simp add: scheduleSlot_armable scheduleSlot_not_armable)+

lemma fold_scheduleSlot_frame:
  "localStorage (fold (scheduleSlot rt now dk st medId name) ts s) = localStorage s"
  "notifications (fold (scheduleSlot rt now dk st medId name) ts s) = notifications s"
  by (induction ts arbitrary: s; simp add: scheduleSlot_frame)+

lemma generalReminder_frame:
  "localStorage (generalReminder dk med s) = localStorage s"
  "pending (generalReminder dk med s) = pending s"
  by (simp_all add: generalReminder_def Let_def showNotification_def)

lemma localStorage_scheduleMed:
  "localStorage (scheduleMed rt now dk st med s) = localStorage s"
  by (simp add: scheduleMed_def fold_scheduleSlot_frame generalReminder_frame
      split: option.splits)

lemma localStorage_fold_scheduleMed:
  "localStorage (fold (scheduleMed rt now dk st) meds s) = localStorage s"
  by (induction meds arbitrary: s) (simp_all add: localStorage_scheduleMed)

lemma localStorage_schedulingPass:
  "localStorage (schedulingPass rt now meds s) = localStorage s"
  by (simp add: schedulingPass_def Let_def localStorage_fold_scheduleMed clearAllTimers_fields)



lemma pending_scheduleSlot:
  assumes "pending (scheduleSlot rt now dk st medId name t s) i = Some tm"
  shows "pending s i = Some tm \<or> (armable rt now st medId t \<and> tm = firstTimer rt now dk medId name t)"
  using assms
  by (cases "armable rt now st medId t")
     (auto simp: scheduleSlot_armable scheduleSlot_not_armable split: if_splits)

lemma pending_fold_scheduleSlot:
  assumes "pending (fold (scheduleSlot rt now dk st medId name) ts s) i = Some tm"
  shows "pending s i = Some tm
         \<or> (\<exists>t\<in>set ts. armable rt now st medId t \<and> tm = firstTimer rt now dk medId name t)"
  using assms
proof (induction ts arbitrary: s)
  case Nil
  then show ?case by simp
next
  case (Cons t ts)
  from Cons.prems have "pending (fold (scheduleSlot rt now dk st medId name) ts
      (scheduleSlot rt now dk st medId name t s)) i = Some tm"
    by simp
  from Cons.IH [OF this] show ?case
    using pending_scheduleSlot [of rt now dk st medId name t s i tm] by auto
qed

lemma pending_scheduleMed:
  assumes "pending (scheduleMed rt now dk st med s) i = Some tm"
  shows "pending s i = Some tm
         \<or> (\<exists>t\<in>set (timesOf med). armable rt now st (med_id med) t
                \<and> tm = firstTimer rt now dk (med_id med) (med_name med) t)"
proof (cases "times med")
  case None
  with assms show ?thesis
    by (simp add: scheduleMed_def generalReminder_frame)
next
  case (Some ts)
  show ?thesis
  proof (cases "ts = []")
    case True
    with Some assms show ?thesis
      by (simp add: scheduleMed_def generalReminder_frame)
  next
    case False
    with Some assms
    have "pending (fold (scheduleSlot rt now dk st (med_id med) (med_name med)) ts s) i = Some tm"
      by (simp add: scheduleMed_def)
    from pending_fold_scheduleSlot [OF this] Some show ?thesis
      by (simp add: timesOf_def)
  qed
qed

lemma pending_fold_scheduleMed:
  assumes "pending (fold (scheduleMed rt now dk st) meds s) i = Some tm"
  shows "pending s i = Some tm
         \<or> (\<exists>med\<in>set meds. \<exists>t\<in>set (timesOf med). armable rt now st (med_id med) t
                \<and> tm = firstTimer rt now dk (med_id med) (med_name med) t)"
  using assms
proof (induction meds arbitrary: s)
  case Nil
  then show ?case by simp
next
  case (Cons med meds)
  from Cons.prems have "pending (fold (scheduleMed rt now dk st) meds
      (scheduleMed rt now dk st med s)) i = Some tm"
    by simp
  from Cons.IH [OF this] show ?case
    using pending_scheduleMed [of rt now dk st med s i tm] by auto
qed

lemma pending_schedulingPass:
  assumes "pending (schedulingPass rt now meds s) i = Some tm"
  shows "pending s i = Some tm
         \<or> (\<exists>med\<in>set meds. \<exists>t\<in>set (timesOf med).
               armable rt now (takenMedsOf (localStorage s) (isoDate rt now)) (med_id med) t
               \<and> tm = firstTimer rt now (isoDate rt now) (med_id med) (med_name med) t)"
proof -
  let ?dk = "isoDate rt now"
  let ?st = "takenMedsOf (localStorage s) ?dk"
  obtain s3 where s3: "schedulingPass rt now meds s = fold (scheduleMed rt now ?dk ?st) meds s3"
    and p3: "\<And>j. pending s3 j = (if j \<in> snd ` set (notificationTimers s) then None else pending s j)"
    by (simp add: schedulingPass_def Let_def pending_clearAllTimers clearAllTimers_fields)
  from assms have "pending (fold (scheduleMed rt now ?dk ?st) meds s3) i = Some tm"
    by (simp only: s3)
  from pending_fold_scheduleMed [OF this] show ?thesis
    by (auto simp: p3 split: if_splits)
qed



























section \<open>Late passes and the second reminder\<close>

lemma schedulingPass_single_late:
  assumes "\<not> js_gt (oneHourAfter rt now t) (Some now)" and "times med = Some [t]"
  shows "notificationTimers (schedulingPass rt now [med] s) = []"
    and "notifications (schedulingPass rt now [med] s) = notifications s"
proof -
  have na: "\<not> armable rt now st (med_id med) t" for st
    using assms(1) by (simp add: armable_def)
  show "notificationTimers (schedulingPass rt now [med] s) = []"
    by (simp add: schedulingPass_def Let_def scheduleMed_def assms(2) scheduleSlot_not_armable [OF na])
  show "notifications (schedulingPass rt now [med] s) = notifications s"
    by (simp add: schedulingPass_def Let_def scheduleMed_def assms(2) scheduleSlot_not_armable [OF na]
        clearAllTimers_fields)
qed

lemma fireTimer_first_arms_second:
  assumes "pending s i = Some tm" and "action tm = FirstReminder K nm t0 dk (Some a2)"
    and "fireAt tm \<le> now'" and "now' < a2"
  shows "pending (fireTimer now' i s) (nextTimerId s) =
           Some \<lparr>fireAt = a2, action = SecondReminder K nm dk\<rparr>"
    and "map_of (notificationTimers (fireTimer now' i s)) (K @ ''_second'') = Some (nextTimerId s)"
  using assms
  by (simp_all add: fireTimer_def clearTimeout_def Let_def setTimeout_def emitUnlessTaken_def
      showNotification_def js_gt_def js_sub_def update_conv' delete_conv')

text \<open>Claim C1, amended. When a pass runs after the first reminder of a clock-time
  \<open>t\<close> has passed, whether or not the second reminder is still ahead, the pass arms no
  timer of either tier for that clock-time: the slot leaves the state as it is, every
  timer the pass creates is a first reminder for another clock-time, and for a due-set of
  one medication with this one clock-time the handle table is empty after the pass and no
  notification has been shown. The second reminder is armed in one place only, inside the
  callback of the first: when a first reminder fires before its \<^verbatim>\<open>twoHoursAfter\<close>, the
  second is pending for that instant under the key with the suffix \<^verbatim>\<open>_second\<close>.\<close>

theorem late_slot_arms_no_timer:
  assumes "\<not> js_gt (oneHourAfter rt now t) (Some now)"
  shows "scheduleSlot rt now todayKey storedTakenMeds medId name t s = s
   \<and> (\<forall>i tm. pending (schedulingPass rt now meds s) i = Some tm \<and> pending s i \<noteq> Some tm \<longrightarrow>
         (\<exists>medIdentifier name' t' after2.
             action tm = FirstReminder medIdentifier name' t' (isoDate rt now) after2 \<and> t' \<noteq> t))
   \<and> (\<forall>med. times med = Some [t] \<longrightarrow>
         notificationTimers (schedulingPass rt now [med] s) = []
         \<and> notifications (schedulingPass rt now [med] s) = notifications s)
   \<and> (\<forall>i tm K nm t0 dk a2 now'.
         pending s i = Some tm \<and> action tm = FirstReminder K nm t0 dk (Some a2)
         \<and> fireAt tm \<le> now' \<and> now' < a2 \<longrightarrow>
         pending (fireTimer now' i s) (nextTimerId s) =
           Some \<lparr>fireAt = a2, action = SecondReminder K nm dk\<rparr>
         \<and> map_of (notificationTimers (fireTimer now' i s)) (K @ ''_second'')
             = Some (nextTimerId s))"
proof (intro conjI allI impI)
  show "scheduleSlot rt now todayKey storedTakenMeds medId name t s = s"
    using assms by (simp add: scheduleSlot_not_armable armable_def)
next
  fix i tm
  assume a: "pending (schedulingPass rt now meds s) i = Some tm \<and> pending s i \<noteq> Some tm"
  then have p: "pending (schedulingPass rt now meds s) i = Some tm"
    and np: "pending s i \<noteq> Some tm"
    by simp_all
  from pending_schedulingPass [OF p] np
  obtain med :: due_med and t'
    where "armable rt now (takenMedsOf (localStorage s) (isoDate rt now)) (med_id med) t'"
    and tm: "tm = firstTimer rt now (isoDate rt now) (med_id med) (med_name med) t'"
    by auto
  then have "t' \<noteq> t"
    using assms by (auto simp: armable_def)
  with tm show "\<exists>medIdentifier name' t' after2.
             action tm = FirstReminder medIdentifier name' t' (isoDate rt now) after2 \<and> t' \<noteq> t"
    by (simp add: firstTimer_def)
next
  fix med :: due_med
  assume "times med = Some [t]"
  then show "notificationTimers (schedulingPass rt now [med] s) = []"
    by (rule schedulingPass_single_late(1) [OF assms])
next
  fix med :: due_med
  assume "times med = Some [t]"
  then show "notifications (schedulingPass rt now [med] s) = notifications s"
    by (rule schedulingPass_single_late(2) [OF assms])
next
  fix i tm K nm t0 dk a2 now'
  assume a: "pending s i = Some tm \<and> action tm = FirstReminder K nm t0 dk (Some a2)
         \<and> fireAt tm \<le> now' \<and> now' < a2"
  then show "pending (fireTimer now' i s) (nextTimerId s) =
           Some \<lparr>fireAt = a2, action = SecondReminder K nm dk\<rparr>"
    by (intro fireTimer_first_arms_second(1) [of s i tm K nm t0 dk a2 now']) simp_all
next
  fix i tm K nm t0 dk a2 now'
  assume a: "pending s i = Some tm \<and> action tm = FirstReminder K nm t0 dk (Some a2)
         \<and> fireAt tm \<le> now' \<and> now' < a2"
  then show "map_of (notificationTimers (fireTimer now' i s)) (K @ ''_second'')
             = Some (nextTimerId s)"
    by (intro fireTimer_first_arms_second(2) [of s i tm K nm t0 dk a2 now']) simp_all
qed

lemma exampleDueSet_times: "map times exampleDueSet = [Some [''09:00'']]"
  by code_simp

theorem late_slot_arms_no_timer_witness:
  "oneHourAfter exampleRuntime 1704103500000 ''09:00'' = Some 1704103200000
   \<and> \<not> js_gt (Some 1704103200000) (Some 1704103500000)
   \<and> map times exampleDueSet = [Some [''09:00'']]
   \<and> notificationTimers (schedulingPass exampleRuntime 1704103500000 exampleDueSet
         exampleEngine) = []
   \<and> notifications (schedulingPass exampleRuntime 1704103500000 exampleDueSet
         exampleEngine) = []"
proof -
  have o: "oneHourAfter exampleRuntime 1704103500000 ''09:00'' = Some 1704103200000"
    by code_simp
  have g: "\<not> js_gt (Some 1704103200000) (Some 1704103500000)"
    by (simp add: js_gt_def)
  have h: "\<not> js_gt (oneHourAfter exampleRuntime 1704103500000 ''09:00'') (Some 1704103500000)"
    unfolding o by (rule g)
  obtain med where d: "exampleDueSet = [med]" and t: "times med = Some [''09:00'']"
    using exampleDueSet_times by (cases exampleDueSet) auto
  have n0: "notifications exampleEngine = []"
    by (simp add: exampleEngine_def mountedEngine_def)
  from late_slot_arms_no_timer [OF h, of _ _ _ _ exampleEngine,
      THEN conjunct2, THEN conjunct2, THEN conjunct1] t
  have "notificationTimers (schedulingPass exampleRuntime 1704103500000 [med]
         exampleEngine) = []
       \<and> notifications (schedulingPass exampleRuntime 1704103500000 [med]
         exampleEngine) = notifications exampleEngine"
    by blast
  with o g exampleDueSet_times show ?thesis
    unfolding d [symmetric] n0 by simp
qed

text \<open>The claim C1 as it is stated: medication at 09:00, pass at 10:05. The first reminder
  (10:00) is past and the second (11:00) is ahead, and after the pass the handle table and
  the browser's table of timeouts are both empty: no second reminder is armed, and nothing
  is left to fire at 11:00.\<close>

theorem late_pass_arms_second_tier_counterexample:
  "oneHourAfter exampleRuntime 1704103500000 ''09:00'' = Some 1704103200000
   \<and> twoHoursAfter exampleRuntime 1704103500000 ''09:00'' = Some 1704106800000
   \<and> (1704103200000 :: int) < 1704103500000 \<and> (1704103500000 :: int) < 1704106800000
   \<and> notificationTimers (schedulingPass exampleRuntime 1704103500000 exampleDueSet
         exampleEngine) = []
   \<and> pending (schedulingPass exampleRuntime 1704103500000 exampleDueSet
         exampleEngine) = noPending
   \<and> notifications (schedulingPass exampleRuntime 1704103500000 exampleDueSet
         exampleEngine) = []"
proof -
  have "pending (schedulingPass exampleRuntime 1704103500000 exampleDueSet
         exampleEngine) i = None" for i
    by code_simp
  then have p: "pending (schedulingPass exampleRuntime 1704103500000 exampleDueSet
         exampleEngine) = noPending"
    unfolding noPending_def by (intro ext)
  have rest: "oneHourAfter exampleRuntime 1704103500000 ''09:00'' = Some 1704103200000"
    "twoHoursAfter exampleRuntime 1704103500000 ''09:00'' = Some 1704106800000"
    "notificationTimers (schedulingPass exampleRuntime 1704103500000 exampleDueSet
         exampleEngine) = []"
    "notifications (schedulingPass exampleRuntime 1704103500000 exampleDueSet
         exampleEngine) = []"
    by code_simp+
  from p rest show ?thesis by simp
qed

section \<open>Acknowledgement\<close>

lemma notifications_setTimeout [simp]:
  "notifications (snd (setTimeout cb now d s)) = notifications s"
  "localStorage (snd (setTimeout cb now d s)) = localStorage s"
  "permission (snd (setTimeout cb now d s)) = permission s"
  by (simp_all add: setTimeout_def)

lemma emitUnlessTaken_taken:
  "takenMedsOf (localStorage s) todayKey medIdentifier = Some True \<Longrightarrow>
     emitUnlessTaken todayKey medIdentifier n s = s"
  by (simp add: emitUnlessTaken_def)

lemma notifications_runCallback_taken:
  assumes "takenMedsOf (localStorage s) (cb_todayKey cb) (cb_key cb) = Some True"
  shows "notifications (runCallback now cb s) = notifications s"
proof (cases cb)
  case (FirstReminder medIdentifier name t todayKey after2)
  with assms show ?thesis
    by (simp add: emitUnlessTaken_taken Let_def setTimeout_def split: prod.splits)
next
  case (SecondReminder medIdentifier name todayKey)
  with assms show ?thesis
    by (simp add: emitUnlessTaken_taken Let_def)
qed

lemma notifications_fireTimer_taken:
  assumes "pending s i = Some tm"
    and "takenMedsOf (localStorage s) (cb_todayKey (action tm)) (cb_key (action tm)) = Some True"
  shows "notifications (fireTimer now i s) = notifications s"
proof (cases "now < fireAt tm")
  case True
  with assms(1) show ?thesis by (simp add: fireTimer_def)
next
  case False
  have "notifications (runCallback now (action tm) (clearTimeout i s)) =
          notifications (clearTimeout i s)"
    by (rule notifications_runCallback_taken) (simp add: clearTimeout_def assms(2))
  with False assms(1) show ?thesis
    by (simp add: fireTimer_def clearTimeout_def)
qed

lemma clearPending_frame:
  "localStorage (clearPending k s) = localStorage s"
  "notifications (clearPending k s) = notifications s"
  by (simp_all add: clearPending_def clearTimeout_def split: option.splits)

lemma handleMarkTaken_store:
  "takenMedsOf (localStorage (handleMarkTaken rt now medId t s)) (isoDate rt now) (medId @ ''_'' @ t)
     = Some True"
  by (simp add: handleMarkTaken_def Let_def clearPending_frame takenMedsOf_def)

lemma taken_not_armable:
  assumes "st K = Some True"
  shows "K \<notin> armableKeys rt now st meds"
  using assms unfolding armableKeys_def armable_def by auto

lemma cb_key_firstTimer [simp]:
  "cb_key (action (firstTimer rt now dk medId name t)) = medId @ ''_'' @ t"
  by (simp add: firstTimer_def)

lemma fold_clearTimeout_takenMedsState:
  "takenMedsState (fold (\<lambda>(timerId, i). clearTimeout i) al s) = takenMedsState s"
  by (induction al arbitrary: s) (auto simp: clearTimeout_def)

lemma takenMedsState_clearAllTimers:
  "takenMedsState (clearAllTimers s) = takenMedsState s"
  by (simp add: clearAllTimers_def fold_clearTimeout_takenMedsState)

lemma takenMedsState_scheduleSlot:
  "takenMedsState (scheduleSlot rt now dk st medId name t s) = takenMedsState s"
  by (cases "armable rt now st medId t")
     (simp_all add: scheduleSlot_armable scheduleSlot_not_armable)

lemma takenMedsState_fold_scheduleSlot:
  "takenMedsState (fold (scheduleSlot rt now dk st medId name) ts s) = takenMedsState s"
  by (induction ts arbitrary: s) (simp_all add: takenMedsState_scheduleSlot)

lemma takenMedsState_generalReminder:
  "takenMedsState (generalReminder dk med s) = takenMedsState s"
  by (simp add: generalReminder_def Let_def showNotification_def)

lemma takenMedsState_scheduleMed:
  "takenMedsState (scheduleMed rt now dk st med s) = takenMedsState s"
  by (simp add: scheduleMed_def takenMedsState_fold_scheduleSlot takenMedsState_generalReminder
      split: option.splits)

lemma takenMedsState_fold_scheduleMed:
  "takenMedsState (fold (scheduleMed rt now dk st) meds s) = takenMedsState s"
  by (induction meds arbitrary: s) (simp_all add: takenMedsState_scheduleMed)

lemma takenMedsState_schedulingPass:
  "takenMedsState (schedulingPass rt now meds s) = takenMedsOf (localStorage s) (isoDate rt now)"
  by (simp add: schedulingPass_def Let_def takenMedsState_fold_scheduleMed
      takenMedsState_clearAllTimers)

lemma runCallback_frame:
  "localStorage (runCallback now cb s) = localStorage s"
  "takenMedsState (runCallback now cb s) = takenMedsState s"
  by (cases cb; simp add: Let_def emitUnlessTaken_def showNotification_def setTimeout_def
        split: prod.splits)+

lemma fireTimer_frame:
  "localStorage (fireTimer now i s) = localStorage s"
  "takenMedsState (fireTimer now i s) = takenMedsState s"
  by (simp_all add: fireTimer_def runCallback_frame clearTimeout_def split: option.splits)

lemma cleanup_frame:
  "localStorage (cleanup s) = localStorage s"
  "takenMedsState (cleanup s) = takenMedsState s"
  by (simp_all add: cleanup_def clearAllTimers_fields takenMedsState_clearAllTimers)

lemma clearPending_takenMedsState:
  "takenMedsState (clearPending k s) = takenMedsState s"
  by (simp add: clearPending_def clearTimeout_def split: option.splits)

lemma handleMarkTaken_fields:
  "takenMedsState (handleMarkTaken rt now medId t s) = (takenMedsState s)(medId @ ''_'' @ t \<mapsto> True)"
  "localStorage (handleMarkTaken rt now medId t s) =
     (localStorage s)(''takenMeds_'' @ isoDate rt now \<mapsto> (takenMedsState s)(medId @ ''_'' @ t \<mapsto> True))"
  by (simp_all add: handleMarkTaken_def Let_def clearPending_frame clearPending_takenMedsState)

lemma same_day_step:
  assumes "acknowledged dk K s \<and> takenMedsState s K = Some True"
    and "eventDay rt e = None \<or> eventDay rt e = Some dk"
  shows "acknowledged dk K (step rt e s) \<and> takenMedsState (step rt e s) K = Some True"
proof (cases e)
  case (Pass now meds)
  with assms show ?thesis
    by (simp add: acknowledged_def localStorage_schedulingPass takenMedsState_schedulingPass)
next
  case (MarkTaken now medId t)
  with assms show ?thesis
    by (simp add: acknowledged_def handleMarkTaken_fields takenMedsOf_def)
next
  case (Fire now i)
  with assms show ?thesis
    by (simp add: acknowledged_def fireTimer_frame)
next
  case Cleanup
  with assms show ?thesis
    by (simp add: acknowledged_def cleanup_frame)
qed

lemma other_day_step:
  assumes "acknowledged dk K s" and "eventDay rt e \<noteq> Some dk"
  shows "acknowledged dk K (step rt e s)"
proof (cases e)
  case (Pass now meds)
  with assms show ?thesis
    by (simp add: acknowledged_def localStorage_schedulingPass)
next
  case (MarkTaken now medId t)
  with assms show ?thesis
    by (simp add: acknowledged_def handleMarkTaken_fields takenMedsOf_def)
next
  case (Fire now i)
  with assms show ?thesis
    by (simp add: acknowledged_def fireTimer_frame)
next
  case Cleanup
  with assms show ?thesis
    by (simp add: acknowledged_def cleanup_frame)
qed

lemma same_day_run:
  assumes "acknowledged dk K s \<and> takenMedsState s K = Some True"
    and "\<forall>e\<in>set es. eventDay rt e = None \<or> eventDay rt e = Some dk"
  shows "acknowledged dk K (run rt es s) \<and> takenMedsState (run rt es s) K = Some True"
  using assms
proof (induction es arbitrary: s)
  case Nil
  then show ?case by (simp add: run_def)
next
  case (Cons e es)
  have "acknowledged dk K (step rt e s) \<and> takenMedsState (step rt e s) K = Some True"
    using Cons.prems by (intro same_day_step) simp_all
  from Cons.IH [OF this] Cons.prems(2) show ?case
    by (simp add: run_def)
qed

lemma other_day_run:
  assumes "acknowledged dk K s" and "\<forall>e\<in>set es. eventDay rt e \<noteq> Some dk"
  shows "acknowledged dk K (run rt es s)"
  using assms
proof (induction es arbitrary: s)
  case Nil
  then show ?case by (simp add: run_def)
next
  case (Cons e es)
  have "acknowledged dk K (step rt e s)"
    using Cons.prems by (intro other_day_step) simp_all
  from Cons.IH [OF this] Cons.prems(2) show ?case
    by (simp add: run_def)
qed

lemma run_append: "run rt (es1 @ es2) s = run rt es2 (run rt es1 s)"
  by (simp add: run_def)

lemma acknowledgement_persists:
  assumes "\<forall>e\<in>set es1. eventDay rt e = None \<or> eventDay rt e = Some (isoDate rt now)"
    and "\<forall>e\<in>set es2. eventDay rt e \<noteq> Some (isoDate rt now)"
  shows "acknowledged (isoDate rt now) (medId @ ''_'' @ t)
           (run rt (es1 @ es2) (handleMarkTaken rt now medId t s))"
proof -
  let ?K = "medId @ ''_'' @ t"
  let ?s = "handleMarkTaken rt now medId t s"
  have "acknowledged (isoDate rt now) ?K ?s \<and> takenMedsState ?s ?K = Some True"
    by (simp add: acknowledged_def handleMarkTaken_fields takenMedsOf_def)
  from same_day_run [OF this assms(1)]
  have "acknowledged (isoDate rt now) ?K (run rt es1 ?s)" by simp
  from other_day_run [OF this assms(2)] show ?thesis
    by (simp only: run_append)
qed

text \<open>What holds under one day key, the UTC date the code reads the store by. A key marked
  taken under the day key of a pass is skipped by the pass: it is not in the handle table
  afterwards, and a timeout pending for it after the pass was pending before the pass.
  Every callback reads the store again, under the day key its pass captured, before it
  shows anything: a timeout that fires when its key is marked taken there shows no
  notification, of either tier. And the mark stays under its day key: after
  \<^verbatim>\<open>handleMarkTaken\<close>, through any further events, a timeout for that key armed under
  that same day key shows nothing when it fires.\<close>

lemma acknowledged_key_never_notified:
  "(takenMedsOf (localStorage s) (isoDate rt now) K = Some True \<longrightarrow>
      K \<notin> armedKeys (schedulingPass rt now meds s)
      \<and> (\<forall>i tm. pending (schedulingPass rt now meds s) i = Some tm \<and> cb_key (action tm) = K
            \<longrightarrow> pending s i = Some tm))
   \<and> (\<forall>i tm. pending s i = Some tm
          \<and> takenMedsOf (localStorage s) (cb_todayKey (action tm)) (cb_key (action tm)) = Some True
        \<longrightarrow> notifications (fireTimer now i s) = notifications s)
   \<and> (\<forall>es1 es2 i tm.
          (\<forall>e\<in>set es1. eventDay rt e = None \<or> eventDay rt e = Some (isoDate rt now))
          \<and> (\<forall>e\<in>set es2. eventDay rt e \<noteq> Some (isoDate rt now))
          \<and> pending (run rt (es1 @ es2) (handleMarkTaken rt now medId t s)) i = Some tm
          \<and> cb_key (action tm) = medId @ ''_'' @ t \<and> cb_todayKey (action tm) = isoDate rt now
        \<longrightarrow> notifications (fireTimer now' i (run rt (es1 @ es2) (handleMarkTaken rt now medId t s)))
            = notifications (run rt (es1 @ es2) (handleMarkTaken rt now medId t s)))"
proof (intro conjI impI allI)
  assume taken: "takenMedsOf (localStorage s) (isoDate rt now) K = Some True"
  show "K \<notin> armedKeys (schedulingPass rt now meds s)"
    unfolding armedKeys_schedulingPass
    using taken by (rule taken_not_armable [of "takenMedsOf (localStorage s) (isoDate rt now)" K])
next
  fix i tm
  assume taken: "takenMedsOf (localStorage s) (isoDate rt now) K = Some True"
    and p: "pending (schedulingPass rt now meds s) i = Some tm \<and> cb_key (action tm) = K"
  from pending_schedulingPass [of rt now meds s i tm] p
  show "pending s i = Some tm"
    using taken by (auto simp: armable_def)
next
  fix i tm
  assume "pending s i = Some tm
          \<and> takenMedsOf (localStorage s) (cb_todayKey (action tm)) (cb_key (action tm)) = Some True"
  then show "notifications (fireTimer now i s) = notifications s"
    by (auto intro: notifications_fireTimer_taken)
next
  fix es1 es2 i tm
  let ?s' = "run rt (es1 @ es2) (handleMarkTaken rt now medId t s)"
  assume a: "(\<forall>e\<in>set es1. eventDay rt e = None \<or> eventDay rt e = Some (isoDate rt now))
          \<and> (\<forall>e\<in>set es2. eventDay rt e \<noteq> Some (isoDate rt now))
          \<and> pending ?s' i = Some tm
          \<and> cb_key (action tm) = medId @ ''_'' @ t \<and> cb_todayKey (action tm) = isoDate rt now"
  then have "acknowledged (isoDate rt now) (medId @ ''_'' @ t) ?s'"
    by (intro acknowledgement_persists) simp_all
  with a have "takenMedsOf (localStorage ?s') (cb_todayKey (action tm)) (cb_key (action tm))
                 = Some True"
    by (simp add: acknowledged_def)
  with a show "notifications (fireTimer now' i ?s') = notifications ?s'"
    by (auto intro: notifications_fireTimer_taken)
qed

text \<open>Claim C2, at an input on which the code departs from it. The day key is the UTC
  date, the slots are those of the local day. In New York a medication is taken once daily
  at 20:00. The pass at 08:00 arms its first reminder; the user acknowledges the dose at
  18:00, which the store records under 1 January. A pass at 19:30 of the same evening,
  after midnight UTC, reads the store under 2 January, finds nothing, and arms the slot
  again, for 21:00; the callback at 21:00 reads the store under 2 January as well and
  shows the reminder for the dose acknowledged three hours before. All four instants are
  of one local day.\<close>

theorem acknowledged_slot_notified_after_utc_midnight:
  "map times eveningDueSet = [Some [''20:00'']]
   \<and> isoDate newYorkRuntime 1704150000000 = ''2024-01-01''
   \<and> isoDate newYorkRuntime 1704155400000 = ''2024-01-02''
   \<and> Day (LocalTime newYorkRuntime 1704114000000) = 19723
   \<and> Day (LocalTime newYorkRuntime 1704150000000) = 19723
   \<and> Day (LocalTime newYorkRuntime 1704155400000) = 19723
   \<and> Day (LocalTime newYorkRuntime 1704160800000) = 19723
   \<and> takenMedsOf (localStorage
         (run newYorkRuntime [Pass 1704114000000 eveningDueSet,
                              MarkTaken 1704150000000 ''m1'' ''20:00''] exampleEngine))
         ''2024-01-01'' ''m1_20:00'' = Some True
   \<and> notifications
         (run newYorkRuntime [Pass 1704114000000 eveningDueSet,
                              MarkTaken 1704150000000 ''m1'' ''20:00'',
                              Pass 1704155400000 eveningDueSet] exampleEngine) = []
   \<and> notificationTimers
         (run newYorkRuntime [Pass 1704114000000 eveningDueSet,
                              MarkTaken 1704150000000 ''m1'' ''20:00'',
                              Pass 1704155400000 eveningDueSet] exampleEngine) = [(''m1_20:00'', 2)]
   \<and> map_option fireAt (pending
         (run newYorkRuntime [Pass 1704114000000 eveningDueSet,
                              MarkTaken 1704150000000 ''m1'' ''20:00'',
                              Pass 1704155400000 eveningDueSet] exampleEngine) 2)
       = Some 1704160800000
   \<and> notifications
         (run newYorkRuntime [Pass 1704114000000 eveningDueSet,
                              MarkTaken 1704150000000 ''m1'' ''20:00'',
                              Pass 1704155400000 eveningDueSet,
                              Fire 1704160800000 2] exampleEngine)
       = [firstNotification ''Mesalamine'' ''20:00'']"
  by code_simp

text \<open>What \<^verbatim>\<open>handleMarkTaken\<close> does with the handles: when the handle table holds no zero
  id, as with the ids of \<^verbatim>\<open>setTimeout\<close>, the key and its \<^verbatim>\<open>_second\<close> key are no longer in
  the table afterwards.\<close>

lemma clearPending_handle:
  assumes "0 \<notin> snd ` set (notificationTimers s)"
  shows "map_of (notificationTimers (clearPending k s)) k = None"
    and "map_of (notificationTimers s) k = Some i \<Longrightarrow> pending (clearPending k s) i = None"
    and "0 \<notin> snd ` set (notificationTimers (clearPending k s))"
    and "k' \<noteq> k \<Longrightarrow> map_of (notificationTimers (clearPending k s)) k' = map_of (notificationTimers s) k'"
proof -
  have nz: "i \<noteq> 0" if "map_of (notificationTimers s) k = Some i" for i
    using assms map_of_SomeD [OF that] by force
  show "map_of (notificationTimers (clearPending k s)) k = None"
    using nz by (auto simp: clearPending_def clearTimeout_def delete_conv' split: option.splits)
  show "map_of (notificationTimers s) k = Some i \<Longrightarrow> pending (clearPending k s) i = None"
    using nz by (auto simp: clearPending_def clearTimeout_def split: option.splits)
  show "0 \<notin> snd ` set (notificationTimers (clearPending k s))"
    using assms
    by (auto simp: clearPending_def clearTimeout_def AList.delete_eq split: option.splits)
  show "k' \<noteq> k \<Longrightarrow> map_of (notificationTimers (clearPending k s)) k' = map_of (notificationTimers s) k'"
    by (auto simp: clearPending_def clearTimeout_def delete_conv' split: option.splits)
qed

lemma handleMarkTaken_handles:
  assumes "0 \<notin> snd ` set (notificationTimers s)"
  shows "map_of (notificationTimers (handleMarkTaken rt now medId t s)) (medId @ ''_'' @ t) = None"
    and "map_of (notificationTimers (handleMarkTaken rt now medId t s))
           ((medId @ ''_'' @ t) @ ''_second'') = None"
proof -
  let ?K = "medId @ ''_'' @ t"
  let ?s1 = "s\<lparr>takenMedsState := (takenMedsState s)(?K \<mapsto> True),
                 localStorage := (localStorage s)(''takenMeds_'' @ isoDate rt now
                    \<mapsto> (takenMedsState s)(?K \<mapsto> True))\<rparr>"
  have h: "handleMarkTaken rt now medId t s = clearPending (?K @ ''_second'') (clearPending ?K ?s1)"
    by (simp add: handleMarkTaken_def Let_def)
  have z1: "0 \<notin> snd ` set (notificationTimers ?s1)"
    using assms by simp
  have z2: "0 \<notin> snd ` set (notificationTimers (clearPending ?K ?s1))"
    by (rule clearPending_handle(3) [OF z1])
  have ne: "?K \<noteq> ?K @ ''_second''" by simp
  show "map_of (notificationTimers (handleMarkTaken rt now medId t s)) ?K = None"
    unfolding h clearPending_handle(4) [OF z2 ne] by (rule clearPending_handle(1) [OF z1])
  show "map_of (notificationTimers (handleMarkTaken rt now medId t s)) (?K @ ''_second'') = None"
    unfolding h by (rule clearPending_handle(1) [OF z2])
qed

text \<open>Claim C9, at an input on which the code departs from it. A medication taken twice
  daily has both clock-times set to 09:00. The pass at 08:00 arms two timers under the one
  key; the handle of the second overwrites that of the first. \<^verbatim>\<open>handleMarkTaken\<close> at
  08:30 clears the timer whose handle it finds and empties the handle table, and the first
  timer is still pending.\<close>

theorem markTaken_duplicate_time_leaves_timer:
  "map times duplicateDueSet = [Some [''09:00'', ''09:00'']]
   \<and> notificationTimers (schedulingPass exampleRuntime 1704096000000 duplicateDueSet
         exampleEngine) = [(''m1_09:00'', 2)]
   \<and> notificationTimers (handleMarkTaken exampleRuntime 1704097800000 ''m1'' ''09:00''
         (schedulingPass exampleRuntime 1704096000000 duplicateDueSet
            exampleEngine)) = []
   \<and> pending (handleMarkTaken exampleRuntime 1704097800000 ''m1'' ''09:00''
         (schedulingPass exampleRuntime 1704096000000 duplicateDueSet
            exampleEngine)) 2 = None
   \<and> pending (handleMarkTaken exampleRuntime 1704097800000 ''m1'' ''09:00''
         (schedulingPass exampleRuntime 1704096000000 duplicateDueSet
            exampleEngine)) 1
       = Some \<lparr>fireAt = 1704103200000,
               action = FirstReminder ''m1_09:00'' ''Mesalamine'' ''09:00'' ''2024-01-01''
                          (Some 1704106800000)\<rparr>"
  by code_simp

end
